theory Spec2Isabelle
  imports Complex_Main "HOL-Library.Sublist" "HOL-Library.AList"
begin

section \<open>String primitives of the JavaScript runtime\<close>

text \<open>
  A string is a sequence of code units in the range 0..255 (Latin-1): a \<open>char list\<close>.
  Strings with other code units are outside the model.  The functions below embed the
  \<open>String.prototype\<close> operations the resolver uses on that range.  \<open>toLowerCase\<close> folds
  \<open>A\<close>..\<open>Z\<close> and the Latin-1 capitals U+00C0..U+00DE (without the multiplication sign
  U+00D7), each to the code unit 32 above it; every other code unit is left alone.
\<close>

definition upper_letters :: string where
  "upper_letters = ''ABCDEFGHIJKLMNOPQRSTUVWXYZ''"

definition lower_letters :: string where
  "lower_letters = ''abcdefghijklmnopqrstuvwxyz''"

definition digit_chars :: string where
  "digit_chars = ''0123456789''"

definition latin1_upper :: string where
  "latin1_upper =
     [CHR 0xC0, CHR 0xC1, CHR 0xC2, CHR 0xC3, CHR 0xC4, CHR 0xC5, CHR 0xC6, CHR 0xC7,
      CHR 0xC8, CHR 0xC9, CHR 0xCA, CHR 0xCB, CHR 0xCC, CHR 0xCD, CHR 0xCE, CHR 0xCF,
      CHR 0xD0, CHR 0xD1, CHR 0xD2, CHR 0xD3, CHR 0xD4, CHR 0xD5, CHR 0xD6,
      CHR 0xD8, CHR 0xD9, CHR 0xDA, CHR 0xDB, CHR 0xDC, CHR 0xDD, CHR 0xDE]"

definition latin1_lower :: string where
  "latin1_lower =
     [CHR 0xE0, CHR 0xE1, CHR 0xE2, CHR 0xE3, CHR 0xE4, CHR 0xE5, CHR 0xE6, CHR 0xE7,
      CHR 0xE8, CHR 0xE9, CHR 0xEA, CHR 0xEB, CHR 0xEC, CHR 0xED, CHR 0xEE, CHR 0xEF,
      CHR 0xF0, CHR 0xF1, CHR 0xF2, CHR 0xF3, CHR 0xF4, CHR 0xF5, CHR 0xF6,
      CHR 0xF8, CHR 0xF9, CHR 0xFA, CHR 0xFB, CHR 0xFC, CHR 0xFD, CHR 0xFE]"

definition toLowerChar :: "char \<Rightarrow> char" where
  "toLowerChar c =
     (case map_of (zip (upper_letters @ latin1_upper) (lower_letters @ latin1_lower)) c of
        Some d \<Rightarrow> d
      | None \<Rightarrow> c)"

definition toLowerCase :: "string \<Rightarrow> string" where
  "toLowerCase s = map toLowerChar s"

fun startsWith :: "string \<Rightarrow> string \<Rightarrow> bool" where
  "startsWith s [] = True"
| "startsWith [] (c # cs) = False"
| "startsWith (x # xs) (c # cs) = (x = c \<and> startsWith xs cs)"

text \<open>\<open>str_includes s t\<close> is \<open>s.includes(t)\<close>: \<open>t\<close> occurs in \<open>s\<close> as a contiguous run.\<close>

fun str_includes :: "string \<Rightarrow> string \<Rightarrow> bool" where
  "str_includes [] t = (t = [])"
| "str_includes (x # xs) t = (startsWith (x # xs) t \<or> str_includes xs t)"

definition endsWith :: "string \<Rightarrow> string \<Rightarrow> bool" where
  "endsWith s t = startsWith (rev s) (rev t)"

section \<open>Printer compatibility normalizer\<close>

text \<open>\<open>input.toLowerCase().replace(/[^a-z0-9]/g, "")\<close> followed by the family tokens.\<close>

definition stripNonAlnum :: "string \<Rightarrow> string" where
  "stripNonAlnum s = filter (\<lambda>c. c \<in> set (lower_letters @ digit_chars)) s"

definition normalizePrinterName :: "string \<Rightarrow> string" where
  "normalizePrinterName input =
     (let normalized = stripNonAlnum (toLowerCase input) in
      if str_includes normalized ''p2s'' then ''bambulabp2s''
      else if str_includes normalized ''p1s'' then ''bambulabp1s''
      else if str_includes normalized ''p1p'' then ''bambulabp1p''
      else if str_includes normalized ''x1c'' \<or> str_includes normalized ''x1carbon'' then ''bambulabx1c''
      else if str_includes normalized ''a1mini'' then ''bambulaba1mini''
      else if str_includes normalized ''a1'' then ''bambulaba1''
      else normalized)"

definition corexyCluster :: "string list" where
  "corexyCluster =
     [''bambulabp2s'', ''bambulabp1s'', ''bambulabp1p'', ''bambulabx1c'', ''bambulabx1carbon'']"

text \<open>A JavaScript \<open>Set\<close> is a duplicate-free list in insertion order.\<close>

definition set_add :: "'a list \<Rightarrow> 'a \<Rightarrow> 'a list" where
  "set_add s x = (if x \<in> set s then s else s @ [x])"

definition getCompatibleNormalizedPrinters :: "string \<Rightarrow> string list" where
  "getCompatibleNormalizedPrinters configuredPrinter =
     (let normalized = normalizePrinterName configuredPrinter;
          aliases = [normalized]
      in if normalized \<in> set corexyCluster then foldl set_add aliases corexyCluster else aliases)"

definition isCompatiblePrinterName :: "string \<Rightarrow> string \<Rightarrow> bool" where
  "isCompatiblePrinterName candidatePrinter configuredPrinter =
     (let compatible = getCompatibleNormalizedPrinters configuredPrinter;
          normalizedCandidate = normalizePrinterName candidatePrinter
      in if normalizedCandidate = [] then False
         else if normalizedCandidate \<in> set compatible then True
         else list_ex (\<lambda>alias. str_includes normalizedCandidate alias \<or> str_includes alias normalizedCandidate)
                compatible)"

section \<open>Semi-structured values and numbers\<close>

text \<open>
  A value of TypeScript type \<open>unknown\<close> as the resolver meets it: the result of
  \<open>JSON.parse\<close>.  A finite double is read as the rational it denotes and arithmetic on
  finite doubles is exact (rounding of fractions is not modelled); \<open>JNonFinite\<close> stands
  for \<open>NaN\<close> and the infinities, which every \<open>Number.isFinite\<close> guard rejects.
\<close>

datatype json =
    JNull
  | JBool bool
  | JNum rat
  | JNonFinite
  | JStr string
  | JArr "json list"
  | JObj "(string \<times> json) list"

definition isRecord :: "json \<Rightarrow> bool" where
  "isRecord v = (case v of JObj _ \<Rightarrow> True | _ \<Rightarrow> False)"

definition is_digit :: "char \<Rightarrow> bool" where
  "is_digit c = (c \<in> set digit_chars)"

definition digit_val :: "char \<Rightarrow> nat" where
  "digit_val c = (case map_of (zip digit_chars [0..<10]) c of Some d \<Rightarrow> d | None \<Rightarrow> 0)"

definition nat_of_digits :: "string \<Rightarrow> nat" where
  "nat_of_digits ds = foldl (\<lambda>acc c. 10 * acc + digit_val c) 0 ds"

text \<open>
  \<open>Number(digits)\<close> for a string of digits is the double nearest to the integer the
  digits denote, ties to the even significand: exact below \<open>2^53\<close>, rounded to 53
  significant bits from there on, and \<open>Infinity\<close> (here \<open>None\<close>) when the rounded value
  reaches \<open>2^1024\<close>.
\<close>

fun bit_length :: "nat \<Rightarrow> nat" where
  "bit_length n = (if n = 0 then 0 else Suc (bit_length (n div 2)))"

declare bit_length.simps [simp del]

definition double_of_nat :: "nat \<Rightarrow> nat option" where
  "double_of_nat n =
     (if n < 2 ^ 53 then Some n
      else (let e = bit_length n - 53;
                q = n div 2 ^ e;
                r = n mod 2 ^ e;
                half = 2 ^ (e - 1);
                q' = (if r > half \<or> (r = half \<and> odd q) then q + 1 else q);
                v = q' * 2 ^ e
            in if v \<ge> 2 ^ 1024 then None else Some v))"

text \<open>
  \<open>Number("ip.fp")\<close> for digit strings \<open>ip\<close> and \<open>fp\<close> (\<open>fp\<close> may be empty): the value
  read exactly, and \<open>None\<close> for \<open>Infinity\<close>, which is the result from
  \<open>2^1024 - 2^970\<close> on.
\<close>

definition rat_of_decimal :: "string \<Rightarrow> string \<Rightarrow> rat" where
  "rat_of_decimal ip fp = of_nat (nat_of_digits (ip @ fp)) / 10 ^ length fp"

definition number_of_decimal :: "string \<Rightarrow> string \<Rightarrow> rat option" where
  "number_of_decimal ip fp =
     (if rat_of_decimal ip fp \<ge> 2 ^ 1024 - 2 ^ 970 then None else Some (rat_of_decimal ip fp))"

text \<open>
  White space as \<open>\s\<close> and \<open>trim\<close> see it, within the range of the model: TAB, LF, VT,
  FF, CR, space and the no-break space U+00A0.
\<close>

definition is_space :: "char \<Rightarrow> bool" where
  "is_space c =
     (c \<in> set [CHR 0x09, CHR 0x0A, CHR 0x0B, CHR 0x0C, CHR 0x0D, CHR '' '', CHR 0xA0])"

definition trim :: "string \<Rightarrow> string" where
  "trim s = rev (dropWhile is_space (rev (dropWhile is_space s)))"

section \<open>Duration extraction\<close>

text \<open>
  \<open>value.match(/-?\d+(?:\.\d+)?/)\<close>: the leftmost match, as sign, integer digits and
  fraction digits.
\<close>

definition match_decimal_at :: "string \<Rightarrow> (string \<times> string) option" where
  "match_decimal_at s =
     (let ip = takeWhile is_digit s; r = dropWhile is_digit s in
      if ip = [] then None
      else (case r of
              c # r' \<Rightarrow>
                if c = CHR ''.'' \<and> takeWhile is_digit r' \<noteq> [] then Some (ip, takeWhile is_digit r')
                else Some (ip, [])
            | [] \<Rightarrow> Some (ip, [])))"

fun search_signed_decimal :: "string \<Rightarrow> (bool \<times> string \<times> string) option" where
  "search_signed_decimal [] = None"
| "search_signed_decimal (c # cs) =
     (if c = CHR ''-'' \<and> match_decimal_at cs \<noteq> None
        then map_option (\<lambda>m. (True, m)) (match_decimal_at cs)
      else if match_decimal_at (c # cs) \<noteq> None
        then map_option (\<lambda>m. (False, m)) (match_decimal_at (c # cs))
      else search_signed_decimal cs)"

definition parseFloatFromUnknown :: "json \<Rightarrow> rat option" where
  "parseFloatFromUnknown v =
     (case v of
        JNum x \<Rightarrow> Some x
      | JStr s \<Rightarrow>
          (case search_signed_decimal s of
             None \<Rightarrow> None
           | Some (neg, ip, fp) \<Rightarrow>
               (case number_of_decimal ip fp of
                  None \<Rightarrow> None
                | Some x \<Rightarrow> Some (if neg then - x else x)))
      | _ \<Rightarrow> None)"

text \<open>\<open>/^(\d{1,2}):(\d{1,2})(?::(\d{1,2}))?$/\<close> on the whole string.\<close>

definition take_digits12 :: "string \<Rightarrow> (string \<times> string) option" where
  "take_digits12 s =
     (case s of
        a # b # r \<Rightarrow>
          if is_digit a \<and> is_digit b then Some ([a, b], r)
          else if is_digit a then Some ([a], b # r)
          else None
      | [a] \<Rightarrow> if is_digit a then Some ([a], []) else None
      | [] \<Rightarrow> None)"

definition match_hms :: "string \<Rightarrow> (nat \<times> nat \<times> nat) option" where
  "match_hms s =
     (case take_digits12 s of
        None \<Rightarrow> None
      | Some (h, r1) \<Rightarrow>
          (case r1 of
             [] \<Rightarrow> None
           | c1 # r1' \<Rightarrow>
               if c1 \<noteq> CHR '':'' then None
               else (case take_digits12 r1' of
                       None \<Rightarrow> None
                     | Some (m, r2) \<Rightarrow>
                         (case r2 of
                            [] \<Rightarrow> Some (nat_of_digits h, nat_of_digits m, 0)
                          | c2 # r2' \<Rightarrow>
                              if c2 \<noteq> CHR '':'' then None
                              else (case take_digits12 r2' of
                                      Some (sec, []) \<Rightarrow>
                                        Some (nat_of_digits h, nat_of_digits m, nat_of_digits sec)
                                    | _ \<Rightarrow> None)))))"

text \<open>
  \<open>/(\d+(?:\.\d+)?)\s*u/i\<close> for a unit letter \<open>u\<close>: a match that starts at the head of
  the string, and the leftmost match anywhere; the result is the captured number as its
  integer and fraction digits.
\<close>

definition match_unit_at :: "char \<Rightarrow> string \<Rightarrow> (string \<times> string) option" where
  "match_unit_at u s =
     (let ip = takeWhile is_digit s; r = dropWhile is_digit s;
          unit_next = (\<lambda>t. case dropWhile is_space t of c # _ \<Rightarrow> toLowerChar c = u | [] \<Rightarrow> False)
      in if ip = [] then None
         else (case r of
                 c # r' \<Rightarrow>
                   if c = CHR ''.'' \<and> takeWhile is_digit r' \<noteq> []
                   then (if unit_next (dropWhile is_digit r')
                         then Some (ip, takeWhile is_digit r') else None)
                   else (if unit_next r then Some (ip, []) else None)
               | [] \<Rightarrow> None))"

fun search_unit :: "char \<Rightarrow> string \<Rightarrow> (string \<times> string) option" where
  "search_unit u [] = None"
| "search_unit u (c # cs) =
     (case match_unit_at u (c # cs) of Some x \<Rightarrow> Some x | None \<Rightarrow> search_unit u cs)"

definition magnitude_hours :: "rat \<Rightarrow> rat" where
  "magnitude_hours v = (if v \<le> 72 then v else if v \<le> 7200 then v / 60 else v / 3600)"

text \<open>
  The result of \<open>parseDurationHours\<close> is a finite number of hours, or \<open>None\<close> where the
  source returns \<open>null\<close> or a number that is not finite (a captured literal beyond the
  range of doubles); its caller \<open>findDurationByHints\<close> rejects both alike.
\<close>

definition captured_number :: "(string \<times> string) option \<Rightarrow> rat option" where
  "captured_number m = (case m of Some (ip, fp) \<Rightarrow> number_of_decimal ip fp | None \<Rightarrow> Some 0)"

definition parseDurationHours :: "json \<Rightarrow> rat option" where
  "parseDurationHours v =
     (case v of
        JNum x \<Rightarrow> if x > 0 then Some (magnitude_hours x) else None
      | JStr s \<Rightarrow>
          (let trimmed = trim s in
           if trimmed = [] then None
           else (case match_hms trimmed of
                   Some (hours, minutes, seconds) \<Rightarrow>
                     Some (of_nat hours + of_nat minutes / 60 + of_nat seconds / 3600)
                 | None \<Rightarrow>
                     (let hourMatch = search_unit CHR ''h'' trimmed;
                          minuteMatch = search_unit CHR ''m'' trimmed;
                          secondMatch = search_unit CHR ''s'' trimmed
                      in if hourMatch \<noteq> None \<or> minuteMatch \<noteq> None \<or> secondMatch \<noteq> None
                         then (case (captured_number hourMatch, captured_number minuteMatch,
                                     captured_number secondMatch) of
                                 (Some hours, Some minutes, Some seconds) \<Rightarrow>
                                   (let total = hours + minutes / 60 + seconds / 3600
                                    in if total > 0 then Some total else None)
                               | _ \<Rightarrow> None)
                         else (case parseFloatFromUnknown (JStr trimmed) of
                                 None \<Rightarrow> None
                               | Some numeric \<Rightarrow>
                                   if numeric \<le> 0 then None else Some (magnitude_hours numeric)))))
      | _ \<Rightarrow> None)"

definition parseDurationHoursByKey :: "string \<Rightarrow> json \<Rightarrow> rat option" where
  "parseDurationHoursByKey key v =
     (let normalized = toLowerCase key;
          has = str_includes normalized
      in case v of
           JNum x \<Rightarrow>
             if x > 0 then
               (if has ''ms'' \<or> has ''millisecond'' then Some (x / 3600000)
                else if has ''second'' \<or> has ''sec'' \<or> has ''prediction'' \<or> has ''printtime'' \<or>
                        has ''print_time'' \<or> has ''costtime'' \<or> has ''consumetime'' \<or>
                        has ''duration''
                  then Some (x / 3600)
                else if has ''minute'' \<or> has ''min'' then Some (x / 60)
                else if has ''hour'' \<or> has ''hr'' then Some x
                else parseDurationHours v)
             else parseDurationHours v
         | _ \<Rightarrow> parseDurationHours v)"

section \<open>Data model\<close>

datatype MakerWorldReasonCode =
    invalid_url
  | not_found
  | upstream_blocked
  | timeout
  | malformed_payload
  | network_error
  | incompatible_profile
  | missing_profile_metrics
  | download_unavailable
  | unsupported_model_format

datatype DataSource = api | next_data

datatype MakerWorldSelectionStrategy =
    requested_variant_id
  | user_selected_variant
  | shortest_time_fallback

datatype MakerWorldProfileResolutionMode = strict | relaxed_printer

datatype MakerWorldProfileResolutionConfidence = high | medium

datatype Material = PLA | PETG | other_request

text \<open>An optional property of the summary object is present exactly when its field is \<open>Some\<close>.\<close>

record MakerWorldSettingsSummary =
  layerHeightMm :: "rat option"
  nozzleMm :: "rat option"
  infillPercent :: "rat option"
  supportEnabled :: "bool option"
  wallLoops :: "rat option"
  speedProfile :: "string option"
  filamentProfile :: "string option"

text \<open>
  Identifiers are the positive integers \<open>findIntegerByHints\<close> produces; the two estimates
  are \<open>null\<close> or a finite number.
\<close>

record VariantCandidate =
  variantId :: "nat option"
  profileId :: "nat option"
  name :: string
  printer :: string
  material :: string
  estimatedHours :: "rat option"
  estimatedGrams :: "rat option"
  payload :: "(string \<times> json) list"
  settingsSummary :: MakerWorldSettingsSummary
  downloadUrl :: "string option"

record MakerWorldAvailableVariant =
  av_variantId :: "nat option"
  av_profileId :: "nat option"
  av_name :: string
  av_printer :: string
  av_material :: string
  av_estimatedHours :: rat
  av_estimatedGrams :: rat

record MakerWorldResolvedData =
  sourceUrl :: string
  sourceModelTitle :: string
  rd_downloadUrl :: "string option"
  fileOriginalName :: string
  selectedVariantId :: "nat option"
  selectedProfileId :: "nat option"
  selectionStrategy :: MakerWorldSelectionStrategy
  availableVariants :: "MakerWorldAvailableVariant list"
  importWarnings :: "string list"
  profileResolutionMode :: MakerWorldProfileResolutionMode
  profileResolutionConfidence :: MakerWorldProfileResolutionConfidence
  sourceProfileId :: "nat option"
  sourceProfileName :: string
  sourceProfilePrinter :: string
  sourceProfileMaterial :: string
  sourceProfileEstimatedGrams :: rat
  sourceProfileEstimatedHours :: rat
  sourceProfilePayload :: "(string \<times> json) list"
  sourceSettingsSummary :: MakerWorldSettingsSummary
  lockedMaterial :: Material

datatype ResolvePipelineResult =
    PipelineOk MakerWorldResolvedData "string list"
  | PipelineFail MakerWorldReasonCode string "string list"

record attempt =
  att_source :: DataSource
  att_ok :: bool
  att_reasonCode :: "MakerWorldReasonCode option"
  att_message :: string

record MakerWorldDiagnostics =
  pipeline :: "DataSource list"
  warnings :: "string list"
  attempts :: "attempt list"

datatype MakerWorldResolveOutcome =
    Resolved MakerWorldResolvedData MakerWorldDiagnostics
  | Unresolvable MakerWorldReasonCode string MakerWorldDiagnostics

text \<open>
  The platform and the constants module are not part of the repository's files: the URL
  parser, \<open>decodeURIComponent\<close> and \<open>JSON.parse\<close> (\<open>None\<close> when they throw),
  \<open>Number\<close> on an arbitrary string (\<open>None\<close> for \<open>NaN\<close>), the text of an integer
  number from \<open>2^53\<close> on (shortest round-trip digits, exponent form from \<open>1e21\<close>) and
  the two constants of \<open>constants.js\<close> are parameters of the model.
\<close>

record parsed_url =
  protocol :: string
  authority :: string
  hostname :: string
  pathname :: string
  search :: string
  hash :: string

record platform =
  new_URL :: "string \<Rightarrow> parsed_url option"
  decodeURIComponent :: "string \<Rightarrow> string option"
  JSON_parse :: "string \<Rightarrow> json option"
  Number_of_string :: "string \<Rightarrow> rat option"
  Number_toString :: "nat \<Rightarrow> string"
  PRINTER_MODEL :: string
  MAX_UPLOAD_BYTES :: nat

text \<open>\<open>url.toString()\<close>: the serialisation of the components.\<close>

definition url_toString :: "parsed_url \<Rightarrow> string" where
  "url_toString u = protocol u @ ''//'' @ authority u @ pathname u @ search u @ hash u"

section \<open>Number formatting\<close>

definition digit_char :: "nat \<Rightarrow> char" where
  "digit_char d = digit_chars ! (d mod 10)"

fun show_nat :: "nat \<Rightarrow> string" where
  "show_nat n = (if n < 10 then [digit_char n] else show_nat (n div 10) @ [digit_char (n mod 10)])"

text \<open>
  An integer number inside a template literal: its decimal digits below \<open>2^53\<close>, the
  platform's text beyond.  An HTTP status has three digits and is printed by \<open>show_nat\<close>.
\<close>

definition number_string :: "platform \<Rightarrow> nat \<Rightarrow> string" where
  "number_string p n = (if n < 2 ^ 53 then show_nat n else Number_toString p n)"

text \<open>\<open>Number(x.toFixed(d))\<close> for \<open>x \<ge> 0\<close>: the nearest multiple of \<open>10^-d\<close>, ties upwards.\<close>

definition toFixed :: "nat \<Rightarrow> rat \<Rightarrow> rat" where
  "toFixed d x = of_int \<lfloor>x * 10 ^ d + 1 / 2\<rfloor> / 10 ^ d"

text \<open>\<open>[...new Set(xs)]\<close>: first occurrences, in order.\<close>

definition dedupe_strings :: "string list \<Rightarrow> string list" where
  "dedupe_strings xs = foldl set_add [] xs"

section \<open>Variant selection engine\<close>

definition mapMakerWorldMaterial :: "string \<Rightarrow> Material" where
  "mapMakerWorldMaterial raw =
     (let normalized = toLowerCase raw in
      if str_includes normalized ''petg'' then PETG
      else if str_includes normalized ''pla'' then PLA
      else other_request)"

definition hasCompleteMetrics :: "VariantCandidate \<Rightarrow> bool" where
  "hasCompleteMetrics variant =
     ((case estimatedHours variant of Some h \<Rightarrow> h > 0 | None \<Rightarrow> False) \<and>
      (case estimatedGrams variant of Some g \<Rightarrow> g > 0 | None \<Rightarrow> False))"

definition dedupe_key :: "platform \<Rightarrow> VariantCandidate \<Rightarrow> string" where
  "dedupe_key p variant =
     (let idKey = (case variantId variant of Some i \<Rightarrow> Some i | None \<Rightarrow> profileId variant) in
      (case idKey of Some i \<Rightarrow> number_string p i | None \<Rightarrow> ''none'') @ '':'' @ toLowerCase (name variant))"

definition dedupe_score :: "VariantCandidate \<Rightarrow> nat" where
  "dedupe_score v = (if hasCompleteMetrics v then 1 else 0) + (if downloadUrl v \<noteq> None then 1 else 0)"

text \<open>The \<open>Map\<close> of \<open>dedupeVariants\<close> is an association list in insertion order.\<close>

definition dedupe_step ::
  "platform \<Rightarrow> (string \<times> VariantCandidate) list \<Rightarrow> VariantCandidate \<Rightarrow>
     (string \<times> VariantCandidate) list" where
  "dedupe_step p m variant =
     (let key = dedupe_key p variant in
      case map_of m key of
        None \<Rightarrow> AList.update key variant m
      | Some existing \<Rightarrow>
          if dedupe_score variant > dedupe_score existing then AList.update key variant m else m)"

definition dedupeVariants :: "platform \<Rightarrow> VariantCandidate list \<Rightarrow> VariantCandidate list" where
  "dedupeVariants p variants = map snd (foldl (dedupe_step p) [] variants)"

text \<open>
  The comparator of \<open>scoreAndSortVariants\<close>: the sign of \<open>a - b\<close> where \<open>null\<close> counts as
  \<open>+Infinity\<close>, and \<open>Infinity - Infinity = NaN\<close>, which \<open>sort\<close> reads as \<open>0\<close>.
\<close>

definition sign_diff_inf :: "rat option \<Rightarrow> rat option \<Rightarrow> int" where
  "sign_diff_inf a b =
     (case (a, b) of
        (None, None) \<Rightarrow> 0
      | (None, Some y) \<Rightarrow> 1
      | (Some x, None) \<Rightarrow> - 1
      | (Some x, Some y) \<Rightarrow> (if x < y then - 1 else if x = y then 0 else 1))"

definition compareVariants :: "VariantCandidate \<Rightarrow> VariantCandidate \<Rightarrow> int" where
  "compareVariants a b =
     (if estimatedHours a \<noteq> estimatedHours b
      then sign_diff_inf (estimatedHours a) (estimatedHours b)
      else sign_diff_inf (estimatedGrams a) (estimatedGrams b))"

text \<open>\<open>Array.prototype.sort\<close> is stable: insertion sort that keeps equal elements in order.\<close>

fun insort_by :: "('a \<Rightarrow> 'a \<Rightarrow> int) \<Rightarrow> 'a \<Rightarrow> 'a list \<Rightarrow> 'a list" where
  "insort_by c x [] = [x]"
| "insort_by c x (y # ys) = (if c x y \<le> 0 then x # y # ys else y # insort_by c x ys)"

definition scoreAndSortVariants :: "VariantCandidate list \<Rightarrow> VariantCandidate list" where
  "scoreAndSortVariants variants = foldr (insort_by compareVariants) variants []"

definition findVariantByRequestedId :: "VariantCandidate list \<Rightarrow> nat \<Rightarrow> VariantCandidate option" where
  "findVariantByRequestedId variants requestedId =
     find (\<lambda>variant. variantId variant = Some requestedId \<or> profileId variant = Some requestedId) variants"

definition warn_requested_unavailable :: string where
  "warn_requested_unavailable =
     ''Requested MakerWorld variant was unavailable. Used the best available variant.''"

definition warn_selected_unavailable :: string where
  "warn_selected_unavailable =
     ''Selected MakerWorld variant was unavailable. Used the best available variant.''"

text \<open>
  The selection step of \<open>finalizeResolvedData\<close>: \<open>selected\<close>, \<open>selectionStrategy\<close> and the
  warnings after the \<open>if / else if\<close> on the two requested identifiers.
\<close>

definition select_variant ::
  "VariantCandidate list \<Rightarrow> nat option \<Rightarrow> nat option \<Rightarrow> string list \<Rightarrow>
     VariantCandidate option \<times> MakerWorldSelectionStrategy \<times> string list" where
  "select_variant sortedPool requestedVariantId userVariantId warns =
     (let selected = (case sortedPool of [] \<Rightarrow> None | v # _ \<Rightarrow> Some v) in
      case requestedVariantId of
        Some rid \<Rightarrow>
          (case findVariantByRequestedId sortedPool rid of
             Some requested \<Rightarrow> (Some requested, requested_variant_id, warns)
           | None \<Rightarrow> (selected, shortest_time_fallback, warns @ [warn_requested_unavailable]))
      | None \<Rightarrow>
          (case userVariantId of
             Some uid \<Rightarrow>
               (case findVariantByRequestedId sortedPool uid of
                  Some userSelected \<Rightarrow> (Some userSelected, user_selected_variant, warns)
                | None \<Rightarrow> (selected, shortest_time_fallback, warns @ [warn_selected_unavailable]))
           | None \<Rightarrow> (selected, shortest_time_fallback, warns)))"

section \<open>The fetch primitive\<close>

text \<open>
  A thrown value is an \<open>Error\<close> with a name and a message, or something that is not an
  \<open>Error\<close>.  A call of \<open>fetch\<close> either throws or yields a response whose body can in
  turn fail to be read.  The primitive is a parameter: it sees the request (URL, headers
  and the budget of the abort timer) and the number of the attempt for that request, and
  an expired timer shows as a thrown \<open>AbortError\<close>.
\<close>

datatype js_error = JsError (err_name: string) (err_message: string) | NonErrorThrown

record http_request =
  req_url :: string
  req_headers :: "(string \<times> string) list"
  req_timeoutMs :: rat

record http_response =
  status :: nat
  resp_url :: string
  resp_headers :: "(string \<times> string) list"
  resp_body :: "js_error + string"

datatype fetch_outcome = FetchThrows js_error | FetchResponds http_response

type_synonym fetch_primitive = "http_request \<Rightarrow> nat \<Rightarrow> fetch_outcome"

definition response_ok :: "http_response \<Rightarrow> bool" where
  "response_ok r = (200 \<le> status r \<and> status r \<le> 299)"

text \<open>\<open>headers.get(name)\<close>; header names are stored in lower case.\<close>

definition headers_get :: "(string \<times> string) list \<Rightarrow> string \<Rightarrow> string option" where
  "headers_get hs n = map_of hs (toLowerCase n)"

definition error_message_or :: "js_error \<Rightarrow> string \<Rightarrow> string" where
  "error_message_or e dflt = (case e of JsError _ m \<Rightarrow> m | NonErrorThrown \<Rightarrow> dflt)"

section \<open>API client (\<open>api.ts\<close>)\<close>

record MakerWorldApiError =
  reasonCode :: MakerWorldReasonCode
  message :: string
  err_status :: "nat option"

datatype 'a MakerWorldApiResult = ApiOk 'a | ApiErr MakerWorldApiError

datatype jsnum = Num rat | NotFinite

record MakerWorldApiRequestOptions =
  timeoutMs :: "jsnum option"
  retries :: "jsnum option"
  headers :: "(string \<times> string) list option"

definition MAKERWORLD_DESIGN_SERVICE_BASE :: string where
  "MAKERWORLD_DESIGN_SERVICE_BASE = ''https://makerworld.com/v1/design-service''"

definition API_TIMEOUT_MS :: rat where
  "API_TIMEOUT_MS = 8000"

definition API_RETRY_COUNT :: nat where
  "API_RETRY_COUNT = 1"

definition API_HEADERS :: "(string \<times> string) list" where
  "API_HEADERS =
     [(''user-agent'', ''3d-printing-service/1.0''),
      (''accept'', ''application/json,text/plain,*/*''),
      (''x-bbl-client-type'', ''web''),
      (''x-bbl-client-version'', ''00.00.00.01''),
      (''x-bbl-app-source'', ''makerworld''),
      (''x-bbl-client-name'', ''MakerWorld'')]"

text \<open>None of the exported fetchers passes a query, so the URL is base and path.\<close>

definition buildApiUrl :: "string \<Rightarrow> string" where
  "buildApiUrl pathname' =
     (let normalizedPath = (if startsWith pathname' ''/'' then drop 1 pathname' else pathname')
      in MAKERWORLD_DESIGN_SERVICE_BASE @ ''/'' @ normalizedPath)"

definition mapHttpStatus :: "nat \<Rightarrow> MakerWorldReasonCode \<times> string" where
  "mapHttpStatus st =
     (if st = 404 then (not_found, ''MakerWorld resource was not found.'')
      else if st = 401 \<or> st = 403 \<or> st = 429
        then (upstream_blocked, ''MakerWorld blocked the request ('' @ show_nat st @ '').'')
      else if st = 408 \<or> st = 504 then (timeout, ''MakerWorld request timed out.'')
      else (network_error, ''MakerWorld API request failed ('' @ show_nat st @ '').''))"

definition effective_timeoutMs :: "MakerWorldApiRequestOptions option \<Rightarrow> rat" where
  "effective_timeoutMs options =
     (case options of
        Some opts \<Rightarrow> (case timeoutMs opts of Some (Num t) \<Rightarrow> if t > 0 then t else API_TIMEOUT_MS
                                            | _ \<Rightarrow> API_TIMEOUT_MS)
      | None \<Rightarrow> API_TIMEOUT_MS)"

text \<open>\<open>Math.max(0, Math.trunc(retries))\<close>.\<close>

definition effective_retries :: "MakerWorldApiRequestOptions option \<Rightarrow> nat" where
  "effective_retries options =
     (case options of
        Some opts \<Rightarrow> (case retries opts of Some (Num r) \<Rightarrow> nat \<lfloor>r\<rfloor> | _ \<Rightarrow> API_RETRY_COUNT)
      | None \<Rightarrow> API_RETRY_COUNT)"

text \<open>The object spread \<open>{ ...API_HEADERS, ...(options?.headers ?? {}) }\<close>.\<close>

definition merge_headers :: "(string \<times> string) list \<Rightarrow> (string \<times> string) list \<Rightarrow> (string \<times> string) list" where
  "merge_headers base extra = foldl (\<lambda>acc (k, v). AList.update k v acc) base extra"

definition effective_headers :: "MakerWorldApiRequestOptions option \<Rightarrow> (string \<times> string) list" where
  "effective_headers options =
     merge_headers API_HEADERS
       (case options of Some opts \<Rightarrow> (case headers opts of Some h \<Rightarrow> h | None \<Rightarrow> []) | None \<Rightarrow> [])"

definition api_request :: "string \<Rightarrow> MakerWorldApiRequestOptions option \<Rightarrow> http_request" where
  "api_request pathname' options =
     \<lparr>req_url = buildApiUrl pathname',
      req_headers = effective_headers options,
      req_timeoutMs = effective_timeoutMs options\<rparr>"

text \<open>
  The retry loop of \<open>fetchApiJson\<close>, from attempt \<open>attempt\<close> on.  The result comes with
  the number of calls of \<open>fetch\<close> the loop has made.
\<close>

function fetch_loop ::
  "platform \<Rightarrow> fetch_primitive \<Rightarrow> http_request \<Rightarrow> nat \<Rightarrow> nat \<Rightarrow> json MakerWorldApiResult \<times> nat" where
  "fetch_loop p fetch req retries' attempt =
     (let on_throw = (\<lambda>error.
            let aborted = (case error of JsError n _ \<Rightarrow> n = ''AbortError'' | NonErrorThrown \<Rightarrow> False);
                lastMessage = error_message_or error ''Unknown network error''
            in if attempt \<ge> retries'
               then (ApiErr \<lparr>reasonCode = (if aborted then timeout else network_error),
                             message = (if aborted then ''MakerWorld API request timed out.''
                                        else ''MakerWorld API request failed: '' @ lastMessage),
                             err_status = None\<rparr>,
                     Suc attempt)
               else fetch_loop p fetch req retries' (Suc attempt))
      in case fetch req attempt of
           FetchThrows error \<Rightarrow> on_throw error
         | FetchResponds response \<Rightarrow>
             if \<not> response_ok response
             then (let mapped = mapHttpStatus (status response)
                   in (ApiErr \<lparr>reasonCode = fst mapped, message = snd mapped,
                                err_status = Some (status response)\<rparr>,
                       Suc attempt))
             else (case resp_body response of
                     Inl error \<Rightarrow> on_throw error
                   | Inr raw \<Rightarrow>
                       if trim raw = []
                       then (ApiErr \<lparr>reasonCode = malformed_payload,
                                     message = ''MakerWorld API returned an empty payload.'',
                                     err_status = Some (status response)\<rparr>,
                             Suc attempt)
                       else (case JSON_parse p raw of
                               Some v \<Rightarrow> (ApiOk v, Suc attempt)
                             | None \<Rightarrow>
                                 (ApiErr \<lparr>reasonCode = malformed_payload,
                                          message = ''MakerWorld API returned invalid JSON.'',
                                          err_status = Some (status response)\<rparr>,
                                  Suc attempt))))"
  by pat_completeness auto
termination
  by (relation "measure (\<lambda>(p, fetch, req, retries', attempt). retries' - attempt)") auto

declare fetch_loop.simps [simp del]

definition fetchApiJson_run ::
  "platform \<Rightarrow> fetch_primitive \<Rightarrow> string \<Rightarrow> MakerWorldApiRequestOptions option \<Rightarrow>
     json MakerWorldApiResult \<times> nat" where
  "fetchApiJson_run p fetch pathname' options =
     fetch_loop p fetch (api_request pathname' options) (effective_retries options) 0"

definition fetchApiJson ::
  "platform \<Rightarrow> fetch_primitive \<Rightarrow> string \<Rightarrow> MakerWorldApiRequestOptions option \<Rightarrow>
     json MakerWorldApiResult" where
  "fetchApiJson p fetch pathname' options = fst (fetchApiJson_run p fetch pathname' options)"

definition fetchDesignInstances ::
  "platform \<Rightarrow> fetch_primitive \<Rightarrow> nat \<Rightarrow> MakerWorldApiRequestOptions option \<Rightarrow> json MakerWorldApiResult" where
  "fetchDesignInstances p fetch designId options =
     fetchApiJson p fetch (''/design/'' @ number_string p designId @ ''/instances'') options"

definition fetchProfile ::
  "platform \<Rightarrow> fetch_primitive \<Rightarrow> nat \<Rightarrow> MakerWorldApiRequestOptions option \<Rightarrow> json MakerWorldApiResult" where
  "fetchProfile p fetch profileId' options =
     fetchApiJson p fetch (''/profile/'' @ number_string p profileId') options"

definition fetchInstance3mf ::
  "platform \<Rightarrow> fetch_primitive \<Rightarrow> nat \<Rightarrow> MakerWorldApiRequestOptions option \<Rightarrow> json MakerWorldApiResult" where
  "fetchInstance3mf p fetch instanceId options =
     fetchApiJson p fetch (''/instance/'' @ number_string p instanceId @ ''/f3mf'') options"

definition fetchDesign ::
  "platform \<Rightarrow> fetch_primitive \<Rightarrow> nat \<Rightarrow> MakerWorldApiRequestOptions option \<Rightarrow> json MakerWorldApiResult" where
  "fetchDesign p fetch designId options =
     fetchApiJson p fetch (''/design/'' @ number_string p designId) options"

definition fetchDesignModel ::
  "platform \<Rightarrow> fetch_primitive \<Rightarrow> nat \<Rightarrow> MakerWorldApiRequestOptions option \<Rightarrow> json MakerWorldApiResult" where
  "fetchDesignModel p fetch designId options =
     fetchApiJson p fetch (''/design/'' @ number_string p designId @ ''/model'') options"

section \<open>File names and model extensions\<close>

datatype ModelExtension = ext_stl | ext_obj | ext_3mf

definition extension_name :: "ModelExtension \<Rightarrow> string" where
  "extension_name e = (case e of ext_stl \<Rightarrow> ''stl'' | ext_obj \<Rightarrow> ''obj'' | ext_3mf \<Rightarrow> ''3mf'')"

text \<open>
  \<open>path.basename\<close> and \<open>path.extname\<close> of Node's POSIX path module: trailing slashes are
  dropped, the base name is what follows the last slash, and the extension runs from the
  last dot of the base name, unless that dot is its first character or the base name is
  \<open>..\<close>.
\<close>

definition path_basename :: "string \<Rightarrow> string" where
  "path_basename pth =
     rev (takeWhile (\<lambda>c. c \<noteq> CHR ''/'') (dropWhile (\<lambda>c. c = CHR ''/'') (rev pth)))"

definition path_extname :: "string \<Rightarrow> string" where
  "path_extname pth =
     (let b = path_basename pth;
          ext = CHR ''.'' # rev (takeWhile (\<lambda>c. c \<noteq> CHR ''.'') (rev b))
      in if CHR ''.'' \<notin> set b then []
         else if length ext = length b \<or> b = ''..'' then []
         else ext)"

definition normalizeModelExtension :: "string option \<Rightarrow> ModelExtension option" where
  "normalizeModelExtension extension =
     (case extension of
        None \<Rightarrow> None
      | Some e \<Rightarrow>
          if e = [] then None
          else (let lowered = toLowerCase e;
                    normalized = (if startsWith lowered ''.'' then drop 1 lowered else lowered)
                in if normalized = ''stl'' then Some ext_stl
                   else if normalized = ''obj'' then Some ext_obj
                   else if normalized = ''3mf'' then Some ext_3mf
                   else None))"

definition fallback_name :: string where
  "fallback_name = ''makerworld-model''"

definition fileNameFromDownloadUrl :: "platform \<Rightarrow> string \<Rightarrow> string" where
  "fileNameFromDownloadUrl p url =
     (case new_URL p url of
        None \<Rightarrow> fallback_name
      | Some parsed \<Rightarrow>
          (case decodeURIComponent p (path_basename (pathname parsed)) of
             None \<Rightarrow> fallback_name
           | Some candidate \<Rightarrow> if candidate = [] then fallback_name else candidate))"

text \<open>
  The leftmost place where the lower-cased text starts with \<open>pat\<close> and the continuation
  \<open>k\<close> accepts what follows: a case-insensitive regular expression that begins with a
  literal.
\<close>

fun search_after_ci :: "string \<Rightarrow> (string \<Rightarrow> 'a option) \<Rightarrow> string \<Rightarrow> 'a option" where
  "search_after_ci pat k [] = (if pat = [] then k [] else None)"
| "search_after_ci pat k (c # cs) =
     (if startsWith (toLowerCase (c # cs)) pat
      then (case k (drop (length pat) (c # cs)) of
              Some r \<Rightarrow> Some r
            | None \<Rightarrow> search_after_ci pat k cs)
      else search_after_ci pat k cs)"

definition nonempty_run :: "(char \<Rightarrow> bool) \<Rightarrow> string \<Rightarrow> string option" where
  "nonempty_run ok s = (if takeWhile ok s = [] then None else Some (takeWhile ok s))"

text \<open>\<open>/filename\*=UTF-8''([^;]+)/i\<close> and \<open>/filename="?([^\";]+)"?/i\<close>.\<close>

definition match_filename_utf :: "string \<Rightarrow> string option" where
  "match_filename_utf v =
     search_after_ci (''filename*=utf-8'' @ [CHR 0x27, CHR 0x27])
       (nonempty_run (\<lambda>c. c \<noteq> CHR '';'')) v"

definition match_filename_basic :: "string \<Rightarrow> string option" where
  "match_filename_basic v =
     search_after_ci ''filename=''
       (\<lambda>rest. nonempty_run (\<lambda>c. c \<noteq> CHR 0x22 \<and> c \<noteq> CHR '';'')
                 (if startsWith rest [CHR 0x22] then drop 1 rest else rest)) v"

definition parseContentDispositionFilename :: "platform \<Rightarrow> string option \<Rightarrow> string option" where
  "parseContentDispositionFilename p v =
     (case v of
        None \<Rightarrow> None
      | Some s \<Rightarrow>
          if s = [] then None
          else (case match_filename_utf s of
                  Some u \<Rightarrow> (case decodeURIComponent p u of Some d \<Rightarrow> Some d | None \<Rightarrow> Some u)
                | None \<Rightarrow>
                    (case match_filename_basic s of
                       None \<Rightarrow> None
                     | Some b \<Rightarrow> if trim b = [] then None else Some (trim b))))"

definition inferModelExtension :: "platform \<Rightarrow> string \<Rightarrow> string \<Rightarrow> string option \<Rightarrow> ModelExtension option" where
  "inferModelExtension p explicitFilename finalUrl contentType =
     (case normalizeModelExtension (Some (path_extname explicitFilename)) of
        Some explicitExt \<Rightarrow> Some explicitExt
      | None \<Rightarrow>
          (case normalizeModelExtension (Some (path_extname (fileNameFromDownloadUrl p finalUrl))) of
             Some urlExt \<Rightarrow> Some urlExt
           | None \<Rightarrow>
               (let type = toLowerCase (case contentType of Some t \<Rightarrow> t | None \<Rightarrow> [])
                in if str_includes type ''3mf'' \<or> str_includes type ''zip'' then Some ext_3mf
                   else if str_includes type ''stl'' \<or> str_includes type ''sla'' then Some ext_stl
                   else if str_includes type ''obj'' then Some ext_obj
                   else None)))"

section \<open>Download validator\<close>

datatype MakerWorldDownloadOutcome =
    Downloaded (dl_buffer: string) (dl_filename: string) (dl_extension: ModelExtension)
               (dl_contentType: "string option") (dl_finalUrl: string)
  | Unavailable MakerWorldReasonCode string

datatype FetchModelFileResult =
    FileOk (f_buffer: string) (f_finalUrl: string) (f_contentType: "string option")
           (f_contentDisposition: "string option")
  | FileFail "nat option" MakerWorldReasonCode string

definition MODEL_FETCH_TIMEOUT_MS :: rat where
  "MODEL_FETCH_TIMEOUT_MS = 20000"

definition too_large_message :: string where
  "too_large_message = ''MakerWorld model is too large (max 50MB on current plan).''"

text \<open>\<open>/abort|timed out/i.test(message)\<close>.\<close>

definition mentions_abort :: "string \<Rightarrow> bool" where
  "mentions_abort m = (str_includes (toLowerCase m) ''abort'' \<or> str_includes (toLowerCase m) ''timed out'')"

definition content_length :: "platform \<Rightarrow> http_response \<Rightarrow> rat option" where
  "content_length p response =
     (case headers_get (resp_headers response) ''content-length'' of
        None \<Rightarrow> Some 0
      | Some v \<Rightarrow> Number_of_string p v)"

definition fetchModelFileWithLimit :: "platform \<Rightarrow> fetch_primitive \<Rightarrow> string \<Rightarrow> nat \<Rightarrow> FetchModelFileResult" where
  "fetchModelFileWithLimit p fetch url maxBytes =
     (let on_throw = (\<lambda>error.
            let msg = error_message_or error ''Download request failed.''
            in if mentions_abort msg
               then FileFail None timeout ''MakerWorld model download timed out.''
               else FileFail None download_unavailable msg)
      in case fetch \<lparr>req_url = url,
                      req_headers = [(''user-agent'', ''3d-printing-service/1.0''), (''accept'', ''*/*'')],
                      req_timeoutMs = MODEL_FETCH_TIMEOUT_MS\<rparr> 0 of
           FetchThrows error \<Rightarrow> on_throw error
         | FetchResponds response \<Rightarrow>
             if \<not> response_ok response
             then FileFail (Some (status response))
                    (if status response = 404 then not_found else download_unavailable)
                    (''MakerWorld model download failed ('' @ show_nat (status response) @ '').'')
             else if (case content_length p response of
                        Some n \<Rightarrow> n > 0 \<and> n > of_nat maxBytes
                      | None \<Rightarrow> False)
             then FileFail (Some (status response)) download_unavailable too_large_message
             else (case resp_body response of
                     Inl error \<Rightarrow> on_throw error
                   | Inr bytes \<Rightarrow>
                       if length bytes > maxBytes
                       then FileFail (Some (status response)) download_unavailable too_large_message
                       else FileOk bytes
                              (if resp_url response = [] then url else resp_url response)
                              (headers_get (resp_headers response) ''content-type'')
                              (headers_get (resp_headers response) ''content-disposition'')))"

definition baseFilename_of :: "platform \<Rightarrow> string option \<Rightarrow> string \<Rightarrow> string" where
  "baseFilename_of p contentDisposition finalUrl =
     (let headerFilename = parseContentDispositionFilename p contentDisposition;
          fallbackFilename = fileNameFromDownloadUrl p finalUrl;
          chosen = trim (case headerFilename of Some h \<Rightarrow> h | None \<Rightarrow> fallbackFilename)
      in if chosen = [] then fallback_name else chosen)"

definition downloadMakerWorldModelFile :: "platform \<Rightarrow> fetch_primitive \<Rightarrow> string \<Rightarrow> MakerWorldDownloadOutcome" where
  "downloadMakerWorldModelFile p fetch downloadUrl' =
     (case fetchModelFileWithLimit p fetch downloadUrl' (MAX_UPLOAD_BYTES p) of
        FileFail _ rc msg \<Rightarrow> Unavailable rc msg
      | FileOk buffer finalUrl contentType contentDisposition \<Rightarrow>
          (let baseFilename = baseFilename_of p contentDisposition finalUrl
           in case inferModelExtension p baseFilename finalUrl contentType of
                None \<Rightarrow>
                  Unavailable unsupported_model_format
                    ''Could not detect STL/OBJ/3MF format from MakerWorld download.''
              | Some extension \<Rightarrow>
                  (let filename =
                         (if endsWith (toLowerCase baseFilename) (''.'' @ extension_name extension)
                          then baseFilename
                          else baseFilename @ ''.'' @ extension_name extension)
                   in Downloaded buffer filename extension contentType finalUrl)))"

section \<open>Heuristic extraction\<close>

text \<open>
  The tree walkers that read identifiers, names, estimates and links out of a payload are
  parameters of the pipeline below: what the pipeline does with their results is modelled,
  for whatever they return.
\<close>

record heuristics =
  extractInstancesFromPayload :: "json \<Rightarrow> json list"
  toVariantCandidate :: "json \<Rightarrow> VariantCandidate option"
  extractModelTitle :: "json \<Rightarrow> string"
  chooseDownloadUrl :: "json \<Rightarrow> string option"
  extractPrinter :: "json \<Rightarrow> string"
  extractMaterial :: "json \<Rightarrow> string"
  extractEstimatedHours :: "json \<Rightarrow> rat option"
  extractEstimatedGrams :: "json \<Rightarrow> rat option"
  extractSettingsSummary :: "json \<Rightarrow> MakerWorldSettingsSummary"
  extractNextDataPayload :: "string \<Rightarrow> json option"

section \<open>Profile enrichment\<close>

text \<open>\<open>Object.keys(summary).length > 0\<close>.\<close>

definition settings_nonempty :: "MakerWorldSettingsSummary \<Rightarrow> bool" where
  "settings_nonempty ss =
     (layerHeightMm ss \<noteq> None \<or> nozzleMm ss \<noteq> None \<or> infillPercent ss \<noteq> None \<or>
      supportEnabled ss \<noteq> None \<or> wallLoops ss \<noteq> None \<or> speedProfile ss \<noteq> None \<or>
      filamentProfile ss \<noteq> None)"

definition merge_profile :: "heuristics \<Rightarrow> VariantCandidate \<Rightarrow> json \<Rightarrow> VariantCandidate" where
  "merge_profile h candidate data =
     candidate
       \<lparr>printer := (if printer candidate \<noteq> ''unknown'' then printer candidate else extractPrinter h data),
        material := (if material candidate \<noteq> ''unknown'' then material candidate else extractMaterial h data),
        estimatedHours := (case estimatedHours candidate of Some x \<Rightarrow> Some x | None \<Rightarrow> extractEstimatedHours h data),
        estimatedGrams := (case estimatedGrams candidate of Some x \<Rightarrow> Some x | None \<Rightarrow> extractEstimatedGrams h data),
        settingsSummary := (if settings_nonempty (settingsSummary candidate) then settingsSummary candidate
                            else extractSettingsSummary h data),
        downloadUrl := (case downloadUrl candidate of Some u \<Rightarrow> Some u | None \<Rightarrow> chooseDownloadUrl h data),
        payload := AList.update ''profile_payload'' data (payload candidate)\<rparr>"

definition maybeEnrichWithProfile ::
  "platform \<Rightarrow> heuristics \<Rightarrow> fetch_primitive \<Rightarrow> VariantCandidate \<Rightarrow> VariantCandidate" where
  "maybeEnrichWithProfile p h fetch candidate =
     (case profileId candidate of
        None \<Rightarrow> candidate
      | Some pid \<Rightarrow>
          if hasCompleteMetrics candidate \<and> printer candidate \<noteq> ''unknown'' \<and>
             material candidate \<noteq> ''unknown''
          then candidate
          else (case fetchProfile p fetch pid None of
                  ApiErr _ \<Rightarrow> candidate
                | ApiOk data \<Rightarrow> if \<not> isRecord data then candidate else merge_profile h candidate data))"

section \<open>Finalisation of a resolution\<close>

definition strategy_name :: "MakerWorldSelectionStrategy \<Rightarrow> string" where
  "strategy_name s =
     (case s of requested_variant_id \<Rightarrow> ''requested_variant_id''
              | user_selected_variant \<Rightarrow> ''user_selected_variant''
              | shortest_time_fallback \<Rightarrow> ''shortest_time_fallback'')"

definition mode_name :: "MakerWorldProfileResolutionMode \<Rightarrow> string" where
  "mode_name m = (case m of strict \<Rightarrow> ''strict'' | relaxed_printer \<Rightarrow> ''relaxed_printer'')"

definition confidence_name :: "MakerWorldProfileResolutionConfidence \<Rightarrow> string" where
  "confidence_name c = (case c of high \<Rightarrow> ''high'' | medium \<Rightarrow> ''medium'')"

definition json_of_id :: "nat option \<Rightarrow> json" where
  "json_of_id i = (case i of Some n \<Rightarrow> JNum (of_nat n) | None \<Rightarrow> JNull)"

definition or_else :: "'a option \<Rightarrow> 'a option \<Rightarrow> 'a option" where
  "or_else a b = (case a of Some x \<Rightarrow> Some x | None \<Rightarrow> b)"

definition toAvailableVariant :: "VariantCandidate \<Rightarrow> MakerWorldAvailableVariant" where
  "toAvailableVariant variant =
     \<lparr>av_variantId = variantId variant,
      av_profileId = profileId variant,
      av_name = name variant,
      av_printer = printer variant,
      av_material = material variant,
      av_estimatedHours = toFixed 4 (case estimatedHours variant of Some x \<Rightarrow> x | None \<Rightarrow> 0),
      av_estimatedGrams = toFixed 4 (case estimatedGrams variant of Some x \<Rightarrow> x | None \<Rightarrow> 0)\<rparr>"

definition warn_inferred :: string where
  "warn_inferred = ''Printer compatibility inferred from explicitly selected MakerWorld variant.''"

definition warn_relaxed :: string where
  "warn_relaxed =
     ''Printer compatibility could not be verified strictly. Using the best available MakerWorld variant.''"

text \<open>The candidate pool with the resolution mode, or \<open>None\<close> where the function gives up.\<close>

definition candidate_pool ::
  "platform \<Rightarrow> nat option \<Rightarrow> nat option \<Rightarrow> VariantCandidate list \<Rightarrow> string list \<Rightarrow>
     (VariantCandidate list \<times> MakerWorldProfileResolutionMode \<times>
      MakerWorldProfileResolutionConfidence \<times> string list) option" where
  "candidate_pool p requestedVariantId userVariantId variants warns =
     (let strict' = filter (\<lambda>variant. isCompatiblePrinterName (printer variant) (PRINTER_MODEL p)) variants;
          strictWithMetrics = filter hasCompleteMetrics strict';
          variantsWithMetrics = filter hasCompleteMetrics variants;
          explicitRequestedId = or_else requestedVariantId userVariantId;
          explicitRequestedWithMetrics =
            (case explicitRequestedId of
               Some i \<Rightarrow> findVariantByRequestedId variantsWithMetrics i
             | None \<Rightarrow> None)
      in if strictWithMetrics \<noteq> [] then Some (strictWithMetrics, strict, high, warns)
         else (case explicitRequestedWithMetrics of
                 Some e \<Rightarrow> Some ([e], strict, high, warns @ [warn_inferred])
               | None \<Rightarrow>
                   if variantsWithMetrics = [] then None
                   else Some (variantsWithMetrics, relaxed_printer, medium, warns @ [warn_relaxed])))"

definition finalizeResolvedData ::
  "platform \<Rightarrow> string \<Rightarrow> string \<Rightarrow> nat option \<Rightarrow> nat option \<Rightarrow> VariantCandidate list \<Rightarrow>
     string list \<Rightarrow> ResolvePipelineResult" where
  "finalizeResolvedData p sourceUrl' title requestedVariantId userVariantId variants warns =
     (case candidate_pool p requestedVariantId userVariantId variants warns of
        None \<Rightarrow>
          PipelineFail missing_profile_metrics
            ''MakerWorld profile data is incomplete for this model.'' warns
      | Some (candidatePool, resolutionMode, resolutionConfidence, warns1) \<Rightarrow>
          (let sortedPool = scoreAndSortVariants candidatePool in
           case select_variant sortedPool requestedVariantId userVariantId warns1 of
             (None, _, warns2) \<Rightarrow>
               PipelineFail missing_profile_metrics
                 ''MakerWorld profile metrics are unavailable for the selected model.'' warns2
           | (Some selected, strategy, warns2) \<Rightarrow>
               if \<not> hasCompleteMetrics selected
               then PipelineFail missing_profile_metrics
                      ''MakerWorld profile metrics are unavailable for the selected model.'' warns2
               else
                 (let materialLabel = (if material selected = [] then ''unknown'' else material selected);
                      resolvedDownloadUrl = downloadUrl selected
                  in PipelineOk
                       \<lparr>sourceUrl = sourceUrl',
                        sourceModelTitle = title,
                        rd_downloadUrl = resolvedDownloadUrl,
                        fileOriginalName =
                          (case resolvedDownloadUrl of
                             Some u \<Rightarrow> if u = [] then fallback_name else fileNameFromDownloadUrl p u
                           | None \<Rightarrow> fallback_name),
                        selectedVariantId = or_else (variantId selected) (profileId selected),
                        selectedProfileId = or_else (profileId selected) (variantId selected),
                        selectionStrategy = strategy,
                        availableVariants = map toAvailableVariant (filter hasCompleteMetrics sortedPool),
                        importWarnings = dedupe_strings warns2,
                        profileResolutionMode = resolutionMode,
                        profileResolutionConfidence = resolutionConfidence,
                        sourceProfileId = or_else (profileId selected) (variantId selected),
                        sourceProfileName = name selected,
                        sourceProfilePrinter = printer selected,
                        sourceProfileMaterial = materialLabel,
                        sourceProfileEstimatedGrams =
                          toFixed 4 (case estimatedGrams selected of Some x \<Rightarrow> x | None \<Rightarrow> 0),
                        sourceProfileEstimatedHours =
                          toFixed 4 (case estimatedHours selected of Some x \<Rightarrow> x | None \<Rightarrow> 0),
                        sourceProfilePayload =
                          [(''source_variant_id'', json_of_id (variantId selected)),
                           (''source_profile_id'', json_of_id (profileId selected)),
                           (''selection_strategy'', JStr (strategy_name strategy)),
                           (''profile_resolution_mode'', JStr (mode_name resolutionMode)),
                           (''profile_resolution_confidence'', JStr (confidence_name resolutionConfidence)),
                           (''import_warnings'', JArr (map JStr (dedupe_strings warns2))),
                           (''raw_variant_payload'', JObj (payload selected))],
                        sourceSettingsSummary = settingsSummary selected,
                        lockedMaterial = mapMakerWorldMaterial materialLabel\<rparr>
                       warns2)))"

section \<open>The two stages\<close>

record api_input =
  ai_sourceUrl :: string
  ai_designId :: nat
  ai_requestedVariantId :: "nat option"
  ai_userVariantId :: "nat option"

record next_data_input =
  ni_sourceUrl :: string
  ni_requestedVariantId :: "nat option"
  ni_userVariantId :: "nat option"

definition refine_downloadUrl ::
  "platform \<Rightarrow> heuristics \<Rightarrow> fetch_primitive \<Rightarrow> nat \<Rightarrow> MakerWorldResolvedData \<Rightarrow> string option" where
  "refine_downloadUrl p h fetch designId data =
     (let downloadUrl0 = rd_downloadUrl data;
          downloadUrl1 =
            (case selectedVariantId data of
               None \<Rightarrow> downloadUrl0
             | Some i \<Rightarrow>
                 if i = 0 then downloadUrl0
                 else (case fetchInstance3mf p fetch i None of
                         ApiOk d \<Rightarrow> or_else (chooseDownloadUrl h d) downloadUrl0
                       | ApiErr _ \<Rightarrow> downloadUrl0))
      in case fetchDesignModel p fetch designId None of
           ApiOk d \<Rightarrow> or_else downloadUrl1 (chooseDownloadUrl h d)
         | ApiErr _ \<Rightarrow> downloadUrl1)"

definition resolveViaApi ::
  "platform \<Rightarrow> heuristics \<Rightarrow> fetch_primitive \<Rightarrow> api_input \<Rightarrow> ResolvePipelineResult" where
  "resolveViaApi p h fetch input =
     (let designResult = fetchDesign p fetch (ai_designId input) None;
          instancesResult = fetchDesignInstances p fetch (ai_designId input) None
      in case instancesResult of
           ApiErr e \<Rightarrow> PipelineFail (reasonCode e) (message e) []
         | ApiOk instancesData \<Rightarrow>
             (let rawInstances = extractInstancesFromPayload h instancesData;
                  fallbackInstances =
                    (case designResult of
                       ApiOk d \<Rightarrow> extractInstancesFromPayload h d
                     | ApiErr _ \<Rightarrow> []);
                  instanceSource = (if rawInstances \<noteq> [] then rawInstances else fallbackInstances)
              in if instanceSource = []
                 then PipelineFail malformed_payload
                        ''MakerWorld API did not return usable variant data.'' []
                 else (let mapped = dedupeVariants p (List.map_filter (toVariantCandidate h) instanceSource)
                       in if mapped = []
                          then PipelineFail malformed_payload
                                 ''MakerWorld API returned variants in an unsupported format.'' []
                          else (let enriched = map (maybeEnrichWithProfile p h fetch) mapped;
                                    titlePayload = (case designResult of ApiOk d \<Rightarrow> d | ApiErr _ \<Rightarrow> instancesData)
                                in case finalizeResolvedData p (ai_sourceUrl input)
                                          (extractModelTitle h titlePayload)
                                          (ai_requestedVariantId input) (ai_userVariantId input)
                                          enriched [] of
                                     PipelineFail rc msg ws \<Rightarrow> PipelineFail rc msg ws
                                   | PipelineOk data ws \<Rightarrow>
                                       (let downloadUrl' = refine_downloadUrl p h fetch (ai_designId input) data
                                        in PipelineOk
                                             (data\<lparr>rd_downloadUrl := downloadUrl',
                                                   fileOriginalName :=
                                                     (case downloadUrl' of
                                                        Some u \<Rightarrow> if u = [] then fallback_name
                                                                  else fileNameFromDownloadUrl p u
                                                      | None \<Rightarrow> fallback_name)\<rparr>)
                                             ws)))))"

definition HTML_FETCH_TIMEOUT_MS :: rat where
  "HTML_FETCH_TIMEOUT_MS = 12000"

definition MAX_HTML_BYTES :: nat where
  "MAX_HTML_BYTES = 3 * 1024 * 1024"

definition page_too_large :: js_error where
  "page_too_large = JsError ''Error'' ''MakerWorld page is too large to parse.''"

definition fetchTextWithLimit ::
  "platform \<Rightarrow> fetch_primitive \<Rightarrow> string \<Rightarrow> rat \<Rightarrow> nat \<Rightarrow> js_error + string" where
  "fetchTextWithLimit p fetch url timeoutMs' maxBytes =
     (case fetch \<lparr>req_url = url,
                   req_headers = [(''user-agent'', ''3d-printing-service/1.0''), (''accept'', ''text/html,*/*'')],
                   req_timeoutMs = timeoutMs'\<rparr> 0 of
        FetchThrows error \<Rightarrow> Inl error
      | FetchResponds response \<Rightarrow>
          if \<not> response_ok response
          then Inl (JsError ''Error''
                      (''MakerWorld page request failed ('' @ show_nat (status response) @ '')''))
          else if (case content_length p response of
                     Some n \<Rightarrow> n > 0 \<and> n > of_nat maxBytes
                   | None \<Rightarrow> False)
          then Inl page_too_large
          else (case resp_body response of
                  Inl error \<Rightarrow> Inl error
                | Inr raw \<Rightarrow> if length raw > maxBytes then Inl page_too_large else Inr raw))"

text \<open>\<open>!nextData\<close>: no payload, or a payload that is a falsy value.\<close>

definition js_falsy :: "json \<Rightarrow> bool" where
  "js_falsy v =
     (case v of JNull \<Rightarrow> True | JBool b \<Rightarrow> \<not> b | JNum x \<Rightarrow> x = 0 | JNonFinite \<Rightarrow> False
              | JStr s \<Rightarrow> s = [] | _ \<Rightarrow> False)"

definition resolveViaNextData ::
  "platform \<Rightarrow> heuristics \<Rightarrow> fetch_primitive \<Rightarrow> next_data_input \<Rightarrow> ResolvePipelineResult" where
  "resolveViaNextData p h fetch input =
     (case fetchTextWithLimit p fetch (ni_sourceUrl input) HTML_FETCH_TIMEOUT_MS MAX_HTML_BYTES of
        Inl error \<Rightarrow>
          (let msg = error_message_or error ''Failed to fetch MakerWorld page.''
           in if mentions_abort msg
              then PipelineFail timeout ''MakerWorld page request timed out.'' []
              else PipelineFail network_error msg [])
      | Inr html \<Rightarrow>
          (case extractNextDataPayload h html of
             None \<Rightarrow>
               PipelineFail malformed_payload
                 ''MakerWorld page did not expose __NEXT_DATA__ payload.'' []
           | Some nextData \<Rightarrow>
               if js_falsy nextData
               then PipelineFail malformed_payload
                      ''MakerWorld page did not expose __NEXT_DATA__ payload.'' []
               else (let instances = extractInstancesFromPayload h nextData
                     in if instances = []
                        then PipelineFail malformed_payload
                               ''MakerWorld fallback payload did not include variants.'' []
                        else (let variants = dedupeVariants p (List.map_filter (toVariantCandidate h) instances)
                              in if variants = []
                                 then PipelineFail malformed_payload
                                        ''MakerWorld fallback payload variant format was unsupported.'' []
                                 else finalizeResolvedData p (ni_sourceUrl input)
                                        (extractModelTitle h nextData)
                                        (ni_requestedVariantId input) (ni_userVariantId input)
                                        (map (maybeEnrichWithProfile p h fetch) variants) []))))"

section \<open>URL normalisation\<close>

datatype normalize_result =
    NormOk (normalized: string) (designId: nat) (requestedVariantId: "nat option")
  | NormFail MakerWorldReasonCode string

text \<open>
  \<open>Number(digits)\<close> when it is finite: the nearest double.  The \<open>Number.isFinite\<close> guards
  of \<open>normalizeSourceUrl\<close> reject \<open>Infinity\<close>.
\<close>

definition finite_number_of_digits :: "string \<Rightarrow> nat option" where
  "finite_number_of_digits ds = double_of_nat (nat_of_digits ds)"

definition digits_run :: "string \<Rightarrow> string option" where
  "digits_run s = nonempty_run is_digit s"

text \<open>\<open>/\/models?\/(\d+)/i\<close> on the path and \<open>/profileid-(\d+)/i\<close> on the fragment.\<close>

definition match_design_digits :: "string \<Rightarrow> string option" where
  "match_design_digits pth =
     search_after_ci ''/model''
       (\<lambda>rest. case rest of
                  c # r \<Rightarrow>
                    if toLowerChar c = CHR ''s''
                    then (case r of c' # r' \<Rightarrow> if c' = CHR ''/'' then digits_run r' else None | [] \<Rightarrow> None)
                    else if c = CHR ''/'' then digits_run r
                    else None
                | [] \<Rightarrow> None) pth"

definition match_profile_digits :: "string \<Rightarrow> string option" where
  "match_profile_digits h = search_after_ci ''profileid-'' digits_run h"

definition invalid_url_message :: string where
  "invalid_url_message = ''MakerWorld model page URL is required.''"

definition has_model_segment :: "string \<Rightarrow> bool" where
  "has_model_segment pth =
     (str_includes (toLowerCase pth) ''/model/'' \<or> str_includes (toLowerCase pth) ''/models/'')"

definition host_allowed :: "string \<Rightarrow> bool" where
  "host_allowed hostname' =
     (let host = toLowerCase hostname' in host = ''makerworld.com'' \<or> endsWith host ''.makerworld.com'')"

definition design_id_of_path :: "string \<Rightarrow> nat option" where
  "design_id_of_path pth =
     (case match_design_digits pth of
        None \<Rightarrow> None
      | Some ds \<Rightarrow>
          (case finite_number_of_digits ds of
             None \<Rightarrow> None
           | Some n \<Rightarrow> if n = 0 then None else Some n))"

definition variant_id_of_hash :: "string \<Rightarrow> nat option" where
  "variant_id_of_hash h =
     (case match_profile_digits h of
        None \<Rightarrow> None
      | Some ds \<Rightarrow>
          (case finite_number_of_digits ds of
             None \<Rightarrow> None
           | Some n \<Rightarrow> if n > 0 then Some n else None))"

definition normalizeSourceUrl :: "platform \<Rightarrow> string \<Rightarrow> normalize_result" where
  "normalizeSourceUrl p input =
     (case new_URL p input of
        None \<Rightarrow> NormFail invalid_url invalid_url_message
      | Some parsed \<Rightarrow>
          if protocol parsed \<noteq> ''https:'' \<or> \<not> host_allowed (hostname parsed)
          then NormFail invalid_url invalid_url_message
          else if \<not> has_model_segment (pathname parsed)
          then NormFail invalid_url invalid_url_message
          else (case design_id_of_path (pathname parsed) of
                  None \<Rightarrow> NormFail invalid_url ''Could not extract MakerWorld design ID from URL.''
                | Some designId' \<Rightarrow>
                    NormOk (url_toString (parsed\<lparr>hash := []\<rparr>)) designId'
                      (variant_id_of_hash (hash parsed))))"

section \<open>Dual-source resolver orchestrator\<close>

text \<open>
  The options object of \<open>resolveMakerWorldModel\<close>.  Its declared type has the member
  \<open>variantId\<close> only; \<open>request\<close> is the member the API reference documents and the tests
  pass, which the function never reads.
\<close>

record MakerWorldResolveOptions =
  opt_variantId :: "jsnum option"
  opt_request :: "MakerWorldApiRequestOptions option"

text \<open>
  The orchestrator awaits the two stages inside one \<open>try\<close> block.  An awaited stage
  either returns its pipeline result or throws; the stages are taken as parameters, so
  that every behaviour of a stage, a fault included, is covered.  \<open>real_stages\<close> are the
  stages of the source.
\<close>

record stages =
  run_api :: "api_input \<Rightarrow> js_error + ResolvePipelineResult"
  run_next_data :: "next_data_input \<Rightarrow> js_error + ResolvePipelineResult"

definition real_stages :: "platform \<Rightarrow> heuristics \<Rightarrow> fetch_primitive \<Rightarrow> stages" where
  "real_stages p h fetch =
     \<lparr>run_api = (\<lambda>input. Inr (resolveViaApi p h fetch input)),
      run_next_data = (\<lambda>input. Inr (resolveViaNextData p h fetch input))\<rparr>"

datatype stage_call = CallApi api_input | CallNextData next_data_input

definition toResolveFailure ::
  "MakerWorldReasonCode \<Rightarrow> string \<Rightarrow> MakerWorldDiagnostics \<Rightarrow> MakerWorldResolveOutcome" where
  "toResolveFailure rc msg diagnostics = Unresolvable rc msg diagnostics"

definition createAttempt :: "DataSource \<Rightarrow> MakerWorldApiError option \<Rightarrow> string \<Rightarrow> attempt" where
  "createAttempt source result msg =
     (case result of
        None \<Rightarrow> \<lparr>att_source = source, att_ok = True, att_reasonCode = None, att_message = msg\<rparr>
      | Some e \<Rightarrow>
          \<lparr>att_source = source, att_ok = False, att_reasonCode = Some (reasonCode e),
           att_message = (if message e = [] then msg else message e)\<rparr>)"

definition failed_attempt :: "DataSource \<Rightarrow> MakerWorldReasonCode \<Rightarrow> string \<Rightarrow> attempt" where
  "failed_attempt source rc msg =
     \<lparr>att_source = source, att_ok = False, att_reasonCode = Some rc, att_message = msg\<rparr>"

definition userVariantId_of :: "MakerWorldResolveOptions option \<Rightarrow> nat option" where
  "userVariantId_of options =
     (case options of
        None \<Rightarrow> None
      | Some opts \<Rightarrow>
          (case opt_variantId opts of
             Some (Num v) \<Rightarrow> if v > 0 then Some (nat \<lfloor>v\<rfloor>) else None
           | _ \<Rightarrow> None))"

definition empty_diagnostics :: MakerWorldDiagnostics where
  "empty_diagnostics = \<lparr>pipeline = [], warnings = [], attempts = []\<rparr>"

text \<open>
  The \<open>try\<close> block.  The result is what the block returns, or what it throws together
  with the diagnostics object as it stands at the throw; the second component lists the
  stages that were started, in order.
\<close>

definition resolve_try ::
  "platform \<Rightarrow> stages \<Rightarrow> string \<Rightarrow> MakerWorldResolveOptions option \<Rightarrow>
     ((js_error \<times> MakerWorldDiagnostics) + MakerWorldResolveOutcome) \<times> stage_call list" where
  "resolve_try p st sourceUrl' options =
     (let diagnostics = empty_diagnostics in
      case normalizeSourceUrl p sourceUrl' of
        NormFail rc msg \<Rightarrow>
          (Inr (toResolveFailure rc msg
                  (diagnostics\<lparr>attempts := attempts diagnostics @ [failed_attempt api rc msg]\<rparr>)),
           [])
      | NormOk normalized' designId' requestedVariantId' \<Rightarrow>
          (let userVariantId = userVariantId_of options;
               apiInput = \<lparr>ai_sourceUrl = normalized', ai_designId = designId',
                           ai_requestedVariantId = requestedVariantId',
                           ai_userVariantId = userVariantId\<rparr>;
               nextInput = \<lparr>ni_sourceUrl = normalized',
                            ni_requestedVariantId = requestedVariantId',
                            ni_userVariantId = userVariantId\<rparr>
           in case run_api st apiInput of
                Inl error \<Rightarrow> (Inl (error, diagnostics), [CallApi apiInput])
              | Inr apiResolved \<Rightarrow>
                  (let d1 = diagnostics\<lparr>pipeline := pipeline diagnostics @ [api]\<rparr> in
                   case apiResolved of
                     PipelineOk data ws \<Rightarrow>
                       (Inr (Resolved (data\<lparr>importWarnings := dedupe_strings ws\<rparr>)
                               (d1\<lparr>attempts := attempts d1 @
                                       [createAttempt api None ''Resolved via MakerWorld API.''],
                                    warnings := dedupe_strings ws\<rparr>)),
                        [CallApi apiInput])
                   | PipelineFail rc1 msg1 ws1 \<Rightarrow>
                       (let d2 = d1\<lparr>attempts := attempts d1 @ [failed_attempt api rc1 msg1]\<rparr> in
                        case run_next_data st nextInput of
                          Inl error \<Rightarrow> (Inl (error, d2), [CallApi apiInput, CallNextData nextInput])
                        | Inr fallbackResolved \<Rightarrow>
                            (let d3 = d2\<lparr>pipeline := pipeline d2 @ [next_data]\<rparr> in
                             case fallbackResolved of
                               PipelineOk data ws \<Rightarrow>
                                 (Inr (Resolved (data\<lparr>importWarnings := dedupe_strings ws\<rparr>)
                                         (d3\<lparr>attempts := attempts d3 @
                                                 [createAttempt next_data None
                                                    ''Resolved via __NEXT_DATA__ fallback.''],
                                              warnings := dedupe_strings ws\<rparr>)),
                                  [CallApi apiInput, CallNextData nextInput])
                             | PipelineFail rc2 msg2 ws2 \<Rightarrow>
                                 (Inr (toResolveFailure rc2 msg2
                                         (d3\<lparr>attempts := attempts d3 @ [failed_attempt next_data rc2 msg2],
                                              warnings := dedupe_strings (ws1 @ ws2)\<rparr>)),
                                  [CallApi apiInput, CallNextData nextInput]))))))"

definition recovered_warning :: string where
  "recovered_warning = ''Resolver recovered from an unexpected internal error.''"

definition generic_failure_message :: string where
  "generic_failure_message = ''Could not import MakerWorld profile. Please upload STL/OBJ/3MF.''"

text \<open>The \<open>catch\<close> block.\<close>

definition resolve_catch :: "js_error \<Rightarrow> MakerWorldDiagnostics \<Rightarrow> MakerWorldResolveOutcome" where
  "resolve_catch error diagnostics =
     (let msg = error_message_or error ''MakerWorld resolver failed unexpectedly.'';
          d1 = diagnostics\<lparr>warnings := dedupe_strings (warnings diagnostics @ [recovered_warning])\<rparr>;
          d2 = d1\<lparr>attempts := attempts d1 @
                    [failed_attempt (if pipeline d1 = [] then api else last (pipeline d1))
                       network_error msg]\<rparr>
      in toResolveFailure network_error generic_failure_message d2)"

definition resolveMakerWorldModel_run ::
  "platform \<Rightarrow> stages \<Rightarrow> string \<Rightarrow> MakerWorldResolveOptions option \<Rightarrow>
     MakerWorldResolveOutcome \<times> stage_call list" where
  "resolveMakerWorldModel_run p st sourceUrl' options =
     (case resolve_try p st sourceUrl' options of
        (Inr outcome, calls) \<Rightarrow> (outcome, calls)
      | (Inl (error, diagnostics), calls) \<Rightarrow> (resolve_catch error diagnostics, calls))"

definition resolveMakerWorldModel ::
  "platform \<Rightarrow> stages \<Rightarrow> string \<Rightarrow> MakerWorldResolveOptions option \<Rightarrow> MakerWorldResolveOutcome" where
  "resolveMakerWorldModel p st sourceUrl' options = fst (resolveMakerWorldModel_run p st sourceUrl' options)"

definition outcome_diagnostics :: "MakerWorldResolveOutcome \<Rightarrow> MakerWorldDiagnostics" where
  "outcome_diagnostics out = (case out of Resolved _ d \<Rightarrow> d | Unresolvable _ _ d \<Rightarrow> d)"

section \<open>Notions used to state the properties\<close>

text \<open>
  What the \<open>catch\<close> of \<open>fetchApiJson\<close> catches: \<open>fetch\<close> itself throws, or reading the
  body of a successful response throws.
\<close>

definition network_failure :: "fetch_outcome \<Rightarrow> js_error option" where
  "network_failure out =
     (case out of
        FetchThrows e \<Rightarrow> Some e
      | FetchResponds r \<Rightarrow>
          if response_ok r then (case resp_body r of Inl e \<Rightarrow> Some e | Inr _ \<Rightarrow> None) else None)"

definition is_abort :: "js_error \<Rightarrow> bool" where
  "is_abort e = (case e of JsError n _ \<Rightarrow> n = ''AbortError'' | NonErrorThrown \<Rightarrow> False)"

definition first_of :: "'a list \<Rightarrow> 'a option" where
  "first_of xs = (case xs of [] \<Rightarrow> None | x # _ \<Rightarrow> Some x)"

definition matches_id :: "nat \<Rightarrow> VariantCandidate \<Rightarrow> bool" where
  "matches_id i v = (variantId v = Some i \<or> profileId v = Some i)"

section \<open>A platform for the worked examples\<close>

text \<open>
  A parser that knows the URLs of the examples, \<open>decodeURIComponent\<close> on strings without
  escapes, and the documented defaults of the constants.
\<close>

definition example_urls :: "(string \<times> parsed_url) list" where
  "example_urls =
     [(''https://makerworld.com/files/part'',
       \<lparr>protocol = ''https:'', authority = ''makerworld.com'', hostname = ''makerworld.com'',
        pathname = ''/files/part'', search = [], hash = []\<rparr>),
      (''https://makerworld.com/files/raw'',
       \<lparr>protocol = ''https:'', authority = ''makerworld.com'', hostname = ''makerworld.com'',
        pathname = ''/files/raw'', search = [], hash = []\<rparr>),
      (''https://makerworld.com/en/models/1400-demo#profileId-77'',
       \<lparr>protocol = ''https:'', authority = ''makerworld.com'', hostname = ''makerworld.com'',
        pathname = ''/en/models/1400-demo'', search = [], hash = ''#profileId-77''\<rparr>),
      (''https://makerworld.com/en/models/1001-test'',
       \<lparr>protocol = ''https:'', authority = ''makerworld.com'', hostname = ''makerworld.com'',
        pathname = ''/en/models/1001-test'', search = [], hash = []\<rparr>),
      (''http://makerworld.com/en/models/1400-demo'',
       \<lparr>protocol = ''http:'', authority = ''makerworld.com'', hostname = ''makerworld.com'',
        pathname = ''/en/models/1400-demo'', search = [], hash = []\<rparr>),
      (''https://makerworld.com/files/model.stl'',
       \<lparr>protocol = ''https:'', authority = ''makerworld.com'', hostname = ''makerworld.com'',
        pathname = ''/files/model.stl'', search = [], hash = []\<rparr>),
      (''https://makerworld.com/'',
       \<lparr>protocol = ''https:'', authority = ''makerworld.com'', hostname = ''makerworld.com'',
        pathname = ''/'', search = [], hash = []\<rparr>)]"

definition example_platform :: platform where
  "example_platform =
     \<lparr>new_URL = map_of example_urls,
      decodeURIComponent = Some,
      JSON_parse = (\<lambda>s. if s = ''{}'' then Some (JObj []) else None),
      Number_of_string = (\<lambda>s. None),
      Number_toString = (\<lambda>n. ''1e+21''),
      PRINTER_MODEL = ''Bambu Lab P2S'',
      MAX_UPLOAD_BYTES = 52428800\<rparr>"

definition no_settings :: MakerWorldSettingsSummary where
  "no_settings =
     \<lparr>layerHeightMm = None, nozzleMm = None, infillPercent = None, supportEnabled = None,
      wallLoops = None, speedProfile = None, filamentProfile = None\<rparr>"

definition example_variant :: "nat \<Rightarrow> rat \<Rightarrow> VariantCandidate" where
  "example_variant i hours =
     \<lparr>variantId = Some i, profileId = None, name = ''Variant'', printer = ''Bambu Lab P2S'',
      material = ''PLA'', estimatedHours = Some hours, estimatedGrams = Some 10, payload = [],
      settingsSummary = no_settings, downloadUrl = None\<rparr>"

definition abort_then_403 :: fetch_primitive where
  "abort_then_403 req n =
     (if n = 0 then FetchThrows (JsError ''AbortError'' ''aborted'')
      else FetchResponds \<lparr>status = 403, resp_url = [], resp_headers = [], resp_body = Inr ''{}''\<rparr>)"

definition always_abort :: fetch_primitive where
  "always_abort req n = FetchThrows (JsError ''AbortError'' ''aborted'')"

definition always_403 :: fetch_primitive where
  "always_403 req n =
     FetchResponds \<lparr>status = 403, resp_url = [], resp_headers = [], resp_body = Inr ''{}''\<rparr>"

definition missing_header_message :: string where
  "missing_header_message = ''request without the test header''"

text \<open>A primitive that serves a request only if it carries the header of the test suite.\<close>

definition requires_header :: "string \<Rightarrow> string \<Rightarrow> fetch_primitive" where
  "requires_header k v req n =
     (if map_of (req_headers req) k = Some v
      then FetchResponds \<lparr>status = 200, resp_url = [], resp_headers = [(''content-type'', ''model/3mf'')],
                          resp_body = Inr ''{}''\<rparr>
      else FetchThrows (JsError ''Error'' missing_header_message))"


definition faulty_stages :: stages where
  "faulty_stages =
     \<lparr>run_api = (\<lambda>input. Inr (PipelineFail upstream_blocked ''blocked'' [''w''])),
      run_next_data = (\<lambda>input. Inl (JsError ''TypeError'' ''boom''))\<rparr>"

definition failing_stages :: stages where
  "failing_stages =
     \<lparr>run_api = (\<lambda>input. Inr (PipelineFail upstream_blocked ''blocked'' [''w'', ''a''])),
      run_next_data = (\<lambda>input. Inr (PipelineFail malformed_payload ''no payload'' [''w'', ''b'']))\<rparr>"

definition no_heuristics :: heuristics where
  "no_heuristics =
     \<lparr>extractInstancesFromPayload = (\<lambda>v. []),
      toVariantCandidate = (\<lambda>v. None),
      extractModelTitle = (\<lambda>v. ''MakerWorld model''),
      chooseDownloadUrl = (\<lambda>v. None),
      extractPrinter = (\<lambda>v. ''unknown''),
      extractMaterial = (\<lambda>v. ''unknown''),
      extractEstimatedHours = (\<lambda>v. None),
      extractEstimatedGrams = (\<lambda>v. None),
      extractSettingsSummary = (\<lambda>v. no_settings),
      extractNextDataPayload = (\<lambda>v. None)\<rparr>"

definition serves_empty_object :: fetch_primitive where
  "serves_empty_object req n =
     FetchResponds \<lparr>status = 200, resp_url = [], resp_headers = [], resp_body = Inr ''{}''\<rparr>"

definition partial_variant :: VariantCandidate where
  "partial_variant =
     \<lparr>variantId = Some 5010, profileId = Some 9010, name = ''Test Variant'',
      printer = ''Bambu Lab P2S'', material = ''unknown'', estimatedHours = Some 3,
      estimatedGrams = None, payload = [(''id'', JNum 5010)],
      settingsSummary = no_settings, downloadUrl = None\<rparr>"


text \<open>The request options of the test that expects them to reach every API request.\<close>

definition test_request_options :: MakerWorldApiRequestOptions where
  "test_request_options =
     \<lparr>timeoutMs = Some (Num 3000), retries = Some (Num 1),
      headers = Some [(''x-mw-test-client'', ''enabled'')]\<rparr>"

text \<open>
  A primitive that answers 403 on the instances endpoint of design 1400 and is offline
  for every other request.
\<close>

definition instances_403 :: fetch_primitive where
  "instances_403 req n =
     (if req_url req = ''https://makerworld.com/v1/design-service/design/1400/instances''
      then FetchResponds \<lparr>status = 403, resp_url = [], resp_headers = [], resp_body = Inr ''{}''\<rparr>
      else FetchThrows (JsError ''Error'' ''offline''))"

text \<open>
  A primitive whose first two attempts are aborted and whose third answers 403, and
  request options that configure two retries, and none.
\<close>

definition abort_twice_then_403 :: fetch_primitive where
  "abort_twice_then_403 req n =
     (if n < 2 then FetchThrows (JsError ''AbortError'' ''aborted'')
      else FetchResponds \<lparr>status = 403, resp_url = [], resp_headers = [], resp_body = Inr ''{}''\<rparr>)"

definition two_retries :: MakerWorldApiRequestOptions where
  "two_retries = \<lparr>timeoutMs = None, retries = Some (Num 2), headers = None\<rparr>"

definition no_retries :: MakerWorldApiRequestOptions where
  "no_retries = \<lparr>timeoutMs = None, retries = Some (Num 0), headers = None\<rparr>"


section \<open>Facts about the string primitives\<close>

lemma startsWith_prefix: "startsWith s t \<longleftrightarrow> prefix t s"
  by (induction s t rule: startsWith.induct) auto

lemma includes_sublist: "str_includes s t \<longleftrightarrow> sublist t s"
  by (induction s) (auto simp: startsWith_prefix sublist_Cons_right)

lemma set_foldl_set_add: "set (foldl set_add s xs) = set s \<union> set xs"
  by (induction xs arbitrary: s) (auto simp: set_add_def)

section \<open>Printer compatibility\<close>

lemma set_getCompatibleNormalizedPrinters:
  "set (getCompatibleNormalizedPrinters p) =
     (if normalizePrinterName p \<in> set corexyCluster
      then insert (normalizePrinterName p) (set corexyCluster)
      else {normalizePrinterName p})"
  by (simp add: getCompatibleNormalizedPrinters_def Let_def set_foldl_set_add)

text \<open>
  Claim C7 (as amended).  Compatibility is decided on canonical names.  A candidate is
  compatible with the configured printer exactly when its canonical name is not empty and
  it equals an alias of the configured printer, or contains one, or is contained in one;
  the aliases are the canonical configured name, together with the whole core-XY cluster
  when that name belongs to the cluster.  \<open>Bambu Lab P2S\<close> is compatible with the targets
  \<open>P2S\<close>, \<open>X1C\<close> and \<open>Bambu Lab X1 Carbon\<close>; \<open>Prusa MK4\<close> is not compatible with \<open>P2S\<close>.
\<close>

theorem C7_printer_compatibility:
  "(isCompatiblePrinterName candidatePrinter configuredPrinter \<longleftrightarrow>
      normalizePrinterName candidatePrinter \<noteq> [] \<and>
      (\<exists>alias \<in> set (getCompatibleNormalizedPrinters configuredPrinter).
          normalizePrinterName candidatePrinter = alias \<or>
          str_includes (normalizePrinterName candidatePrinter) alias \<or>
          str_includes alias (normalizePrinterName candidatePrinter)))
   \<and> set (getCompatibleNormalizedPrinters configuredPrinter) =
       (if normalizePrinterName configuredPrinter \<in> set corexyCluster
        then insert (normalizePrinterName configuredPrinter) (set corexyCluster)
        else {normalizePrinterName configuredPrinter})
   \<and> isCompatiblePrinterName ''Bambu Lab P2S'' ''P2S''
   \<and> isCompatiblePrinterName ''Bambu Lab P2S'' ''X1C''
   \<and> isCompatiblePrinterName ''Bambu Lab P2S'' ''Bambu Lab X1 Carbon''
   \<and> \<not> isCompatiblePrinterName ''Prusa MK4'' ''P2S''"
proof -
  have gen: "isCompatiblePrinterName candidatePrinter configuredPrinter \<longleftrightarrow>
      normalizePrinterName candidatePrinter \<noteq> [] \<and>
      (\<exists>alias \<in> set (getCompatibleNormalizedPrinters configuredPrinter).
          normalizePrinterName candidatePrinter = alias \<or>
          str_includes (normalizePrinterName candidatePrinter) alias \<or>
          str_includes alias (normalizePrinterName candidatePrinter))"
    by (auto simp: isCompatiblePrinterName_def Let_def list_ex_iff)
  have e1: "isCompatiblePrinterName ''Bambu Lab P2S'' ''P2S''" by code_simp
  have e2: "isCompatiblePrinterName ''Bambu Lab P2S'' ''X1C''" by code_simp
  have e3: "isCompatiblePrinterName ''Bambu Lab P2S'' ''Bambu Lab X1 Carbon''" by code_simp
  have e4: "\<not> isCompatiblePrinterName ''Prusa MK4'' ''P2S''" by code_simp
  show ?thesis
    using gen e1 e2 e3 e4 set_getCompatibleNormalizedPrinters [of configuredPrinter] by blast
qed

theorem C7_printer_compatibility_witness:
  "normalizePrinterName ''Bambu Lab P2S'' \<noteq> [] \<and>
   (\<exists>alias \<in> set (getCompatibleNormalizedPrinters ''X1C'').
      normalizePrinterName ''Bambu Lab P2S'' = alias \<or>
      str_includes (normalizePrinterName ''Bambu Lab P2S'') alias \<or>
      str_includes alias (normalizePrinterName ''Bambu Lab P2S''))"
proof -
  have "isCompatiblePrinterName ''Bambu Lab P2S'' ''X1C''" by code_simp
  then show ?thesis
    using C7_printer_compatibility [of "''Bambu Lab P2S''" "''X1C''"] by blast
qed

text \<open>
  The claim as first stated fails for a candidate whose canonical name is empty: the empty
  string is contained in every alias, yet the guard at the head of
  \<open>isCompatiblePrinterName\<close> rejects it.
\<close>

theorem C7_empty_canonical_counterexample:
  "''bambulabp2s'' \<in> set (getCompatibleNormalizedPrinters ''P2S'') \<and>
   str_includes ''bambulabp2s'' (normalizePrinterName ''--'') \<and>
   \<not> isCompatiblePrinterName ''--'' ''P2S''"
  by code_simp

section \<open>Duration extraction by key\<close>

text \<open>
  Claim C5 (as amended).  For a positive number under a key, read in lower case: a key
  containing \<open>ms\<close> or \<open>millisecond\<close> gives value / 3,600,000; otherwise a key containing
  \<open>second\<close>, \<open>sec\<close>, \<open>prediction\<close>, \<open>printtime\<close>, \<open>print_time\<close>, \<open>costtime\<close>,
  \<open>consumetime\<close> or \<open>duration\<close> gives value / 3600; otherwise \<open>minute\<close> or \<open>min\<close> gives
  value / 60; otherwise \<open>hour\<close> or \<open>hr\<close> gives the value; otherwise the number is taken as
  hours up to 72, as minutes up to 7200 and as seconds beyond.  Under the key
  \<open>prediction\<close> the value 60138 is 16.705 hours, within 0.001.
\<close>

theorem C5_duration_by_key:
  "(0 < v \<longrightarrow>
      parseDurationHoursByKey key (JNum v) =
        Some (let k = toLowerCase key in
              if str_includes k ''ms'' \<or> str_includes k ''millisecond'' then v / 3600000
              else if str_includes k ''second'' \<or> str_includes k ''sec'' \<or>
                      str_includes k ''prediction'' \<or> str_includes k ''printtime'' \<or>
                      str_includes k ''print_time'' \<or> str_includes k ''costtime'' \<or>
                      str_includes k ''consumetime'' \<or> str_includes k ''duration''
                then v / 3600
              else if str_includes k ''minute'' \<or> str_includes k ''min'' then v / 60
              else if str_includes k ''hour'' \<or> str_includes k ''hr'' then v
              else if v \<le> 72 then v
              else if v \<le> 7200 then v / 60
              else v / 3600))
   \<and> (\<exists>h. parseDurationHoursByKey ''prediction'' (JNum 60138) = Some h \<and>
            \<bar>h - 16705 / 1000\<bar> \<le> 1 / 1000)"
proof -
  have ex: "parseDurationHoursByKey ''prediction'' (JNum 60138) = Some (16705 / 1000)"
    by code_simp
  have gen: "0 < v \<longrightarrow>
      parseDurationHoursByKey key (JNum v) =
        Some (let k = toLowerCase key in
              if str_includes k ''ms'' \<or> str_includes k ''millisecond'' then v / 3600000
              else if str_includes k ''second'' \<or> str_includes k ''sec'' \<or>
                      str_includes k ''prediction'' \<or> str_includes k ''printtime'' \<or>
                      str_includes k ''print_time'' \<or> str_includes k ''costtime'' \<or>
                      str_includes k ''consumetime'' \<or> str_includes k ''duration''
                then v / 3600
              else if str_includes k ''minute'' \<or> str_includes k ''min'' then v / 60
              else if str_includes k ''hour'' \<or> str_includes k ''hr'' then v
              else if v \<le> 72 then v
              else if v \<le> 7200 then v / 60
              else v / 3600)"
    by (simp add: parseDurationHoursByKey_def parseDurationHours_def magnitude_hours_def Let_def)
  have "\<bar>(16705 / 1000 :: rat) - 16705 / 1000\<bar> \<le> 1 / 1000" by simp
  with ex have "\<exists>h. parseDurationHoursByKey ''prediction'' (JNum 60138) = Some h \<and>
            \<bar>h - 16705 / 1000\<bar> \<le> 1 / 1000" by blast
  with gen show ?thesis by blast
qed

theorem C5_duration_by_key_witness:
  "(0::rat) < 90 \<and> parseDurationHoursByKey ''estimate'' (JNum 90) = Some (3 / 2)"
proof -
  have k: "toLowerCase ''estimate'' = ''estimate''" by code_simp
  have n: "\<not> str_includes ''estimate'' ''ms''" "\<not> str_includes ''estimate'' ''millisecond''"
    "\<not> str_includes ''estimate'' ''second''" "\<not> str_includes ''estimate'' ''sec''"
    "\<not> str_includes ''estimate'' ''prediction''" "\<not> str_includes ''estimate'' ''printtime''"
    "\<not> str_includes ''estimate'' ''print_time''" "\<not> str_includes ''estimate'' ''costtime''"
    "\<not> str_includes ''estimate'' ''consumetime''" "\<not> str_includes ''estimate'' ''duration''"
    "\<not> str_includes ''estimate'' ''minute''" "\<not> str_includes ''estimate'' ''min''"
    "\<not> str_includes ''estimate'' ''hour''" "\<not> str_includes ''estimate'' ''hr''"
    by code_simp+
  show ?thesis
    using C5_duration_by_key [of 90 "''estimate''"] by (simp add: k n Let_def)
qed

text \<open>
  The claim as first stated fails under the key \<open>elapsed_milliseconds\<close>: it contains
  \<open>second\<close> and not \<open>ms\<close>, and the value is divided by 3,600,000, not by 3600.
\<close>

theorem C5_milliseconds_counterexample:
  "str_includes (toLowerCase ''elapsed_milliseconds'') ''second'' \<and>
   \<not> str_includes (toLowerCase ''elapsed_milliseconds'') ''ms'' \<and>
   parseDurationHoursByKey ''elapsed_milliseconds'' (JNum 7200000) = Some 2 \<and>
   (2::rat) \<noteq> 7200000 / 3600"
  by code_simp

section \<open>API fetch: status mapping and retries\<close>

lemma fetch_loop_http_error:
  assumes "fetch req a = FetchResponds r" "\<not> response_ok r"
  shows "fetch_loop p fetch req n a =
           (ApiErr \<lparr>reasonCode = fst (mapHttpStatus (status r)),
                    message = snd (mapHttpStatus (status r)),
                    err_status = Some (status r)\<rparr>, Suc a)"
  using assms by (subst fetch_loop.simps) (simp add: Let_def)

lemma fetch_loop_retry:
  assumes "network_failure (fetch req a) = Some e" "a < n"
  shows "fetch_loop p fetch req n a = fetch_loop p fetch req n (Suc a)"
  using assms
  by (subst fetch_loop.simps)
     (auto simp: Let_def network_failure_def split: fetch_outcome.splits sum.splits if_splits)

lemma fetch_loop_last:
  assumes "network_failure (fetch req a) = Some e" "n \<le> a"
  shows "fetch_loop p fetch req n a =
           (ApiErr \<lparr>reasonCode = (if is_abort e then timeout else network_error),
                    message = (if is_abort e then ''MakerWorld API request timed out.''
                               else ''MakerWorld API request failed: '' @
                                    error_message_or e ''Unknown network error''),
                    err_status = None\<rparr>, Suc a)"
  using assms
  by (subst fetch_loop.simps)
     (auto simp: Let_def network_failure_def is_abort_def split: fetch_outcome.splits sum.splits if_splits)

lemma fetch_loop_no_failure:
  assumes "network_failure (fetch req a) = None"
  shows "snd (fetch_loop p fetch req n a) = Suc a"
  using assms
  by (subst fetch_loop.simps)
     (auto simp: Let_def network_failure_def split: fetch_outcome.splits sum.splits if_splits option.splits)

lemma fetch_loop_skip:
  assumes "\<forall>i. a \<le> i \<and> i < k \<longrightarrow> network_failure (fetch req i) \<noteq> None" "a \<le> k" "k \<le> n"
  shows "fetch_loop p fetch req n a = fetch_loop p fetch req n k"
  using assms
proof (induction "k - a" arbitrary: a)
  case 0
  then show ?case by simp
next
  case (Suc d)
  then have lt: "a < k" by linarith
  with Suc.prems obtain e where e: "network_failure (fetch req a) = Some e" by auto
  have "fetch_loop p fetch req n a = fetch_loop p fetch req n (Suc a)"
    using fetch_loop_retry [where fetch=fetch and req=req and a=a and n=n and p=p, OF e] lt Suc.prems by simp
  also have "\<dots> = fetch_loop p fetch req n k"
    using Suc.hyps Suc.prems lt by (intro Suc.hyps(1)) auto
  finally show ?case .
qed

lemma fetch_loop_calls_bounds:
  "Suc a \<le> snd (fetch_loop p fetch req n a) \<and> snd (fetch_loop p fetch req n a) \<le> max (Suc a) (Suc n)"
proof (induction "n - a" arbitrary: a)
  case 0
  show ?case
  proof (cases "network_failure (fetch req a)")
    case None
    then show ?thesis using fetch_loop_no_failure by simp
  next
    case (Some e)
    then show ?thesis using fetch_loop_last [where fetch=fetch and req=req and a=a and n=n and p=p, OF Some] 0 by simp
  qed
next
  case (Suc d)
  show ?case
  proof (cases "network_failure (fetch req a)")
    case None
    then show ?thesis using fetch_loop_no_failure by simp
  next
    case (Some e)
    have lt: "a < n" using Suc.hyps by linarith
    have "fetch_loop p fetch req n a = fetch_loop p fetch req n (Suc a)"
      using fetch_loop_retry [where fetch=fetch and req=req and a=a and n=n and p=p, OF Some lt] .
    moreover have "d = n - Suc a" using Suc.hyps by linarith
    ultimately show ?thesis using Suc.hyps(1) [of "Suc a"] lt by auto
  qed
qed

lemma fetch_loop_only_after_failure:
  "a \<le> i \<Longrightarrow> Suc i < snd (fetch_loop p fetch req n a) \<Longrightarrow> network_failure (fetch req i) \<noteq> None"
proof (induction "i - a" arbitrary: a)
  case 0
  then have "i = a" by simp
  with 0 show ?case using fetch_loop_no_failure [of fetch req a p n] by auto
next
  case (Suc d)
  then have lt: "a < i" by linarith
  show ?case
  proof (cases "network_failure (fetch req a)")
    case None
    then have "snd (fetch_loop p fetch req n a) = Suc a" by (rule fetch_loop_no_failure)
    with Suc.prems lt show ?thesis by simp
  next
    case (Some e)
    show ?thesis
    proof (cases "a < n")
      case True
      have "fetch_loop p fetch req n a = fetch_loop p fetch req n (Suc a)"
        using fetch_loop_retry [where fetch=fetch and req=req and a=a and n=n and p=p, OF Some True] .
      then show ?thesis using Suc.hyps(1) [of "Suc a"] Suc.hyps(2) Suc.prems lt by auto
    next
      case False
      then have "snd (fetch_loop p fetch req n a) = Suc a"
        using fetch_loop_last [where fetch=fetch and req=req and a=a and n=n and p=p, OF Some] by simp
      with Suc.prems lt show ?thesis by simp
    qed
  qed
qed

lemma mapHttpStatus_explicit:
  "mapHttpStatus s =
     (if s = 404 then (not_found, ''MakerWorld resource was not found.'')
      else if s = 401 \<or> s = 403 \<or> s = 429
        then (upstream_blocked, ''MakerWorld blocked the request ('' @ show_nat s @ '').'')
      else if s = 408 \<or> s = 504 then (timeout, ''MakerWorld request timed out.'')
      else (network_error, ''MakerWorld API request failed ('' @ show_nat s @ '').''))"
  by (simp add: mapHttpStatus_def)

lemma effective_retries_explicit:
  "effective_retries options =
     (case options of
        None \<Rightarrow> 1
      | Some opts \<Rightarrow>
          (case retries opts of
             None \<Rightarrow> 1
           | Some NotFinite \<Rightarrow> 1
           | Some (Num c) \<Rightarrow> if c < 0 then 0 else nat \<lfloor>c\<rfloor>))"
  by (simp add: effective_retries_def API_RETRY_COUNT_def split: option.splits jsnum.splits)

lemma fetchApiJson_run_http_error:
  assumes "k \<le> effective_retries options"
    and "\<forall>i<k. network_failure (fetch (api_request pathname' options) i) \<noteq> None"
    and "fetch (api_request pathname' options) k = FetchResponds r"
    and "\<not> response_ok r"
  shows "fetchApiJson_run p fetch pathname' options =
           (ApiErr \<lparr>reasonCode = fst (mapHttpStatus (status r)),
                    message = snd (mapHttpStatus (status r)),
                    err_status = Some (status r)\<rparr>, Suc k)"
proof -
  let ?req = "api_request pathname' options"
  let ?n = "effective_retries options"
  have "fetch_loop p fetch ?req ?n 0 = fetch_loop p fetch ?req ?n k"
    using assms by (intro fetch_loop_skip) auto
  also have "\<dots> = (ApiErr \<lparr>reasonCode = fst (mapHttpStatus (status r)),
                            message = snd (mapHttpStatus (status r)),
                            err_status = Some (status r)\<rparr>, Suc k)"
    using assms fetch_loop_http_error [where fetch=fetch and req="?req" and a=k and r=r] by simp
  finally show ?thesis by (simp only: fetchApiJson_run_def)
qed

lemma fetchApiJson_run_exhausted:
  assumes "\<forall>i<effective_retries options.
             network_failure (fetch (api_request pathname' options) i) \<noteq> None"
    and "network_failure (fetch (api_request pathname' options) (effective_retries options)) = Some e"
  shows "fetchApiJson_run p fetch pathname' options =
           (ApiErr \<lparr>reasonCode = (if is_abort e then timeout else network_error),
                    message = (if is_abort e then ''MakerWorld API request timed out.''
                               else ''MakerWorld API request failed: '' @
                                    error_message_or e ''Unknown network error''),
                    err_status = None\<rparr>,
            Suc (effective_retries options))"
proof -
  let ?req = "api_request pathname' options"
  let ?n = "effective_retries options"
  have "fetch_loop p fetch ?req ?n 0 = fetch_loop p fetch ?req ?n ?n"
    using assms by (intro fetch_loop_skip) auto
  also have "\<dots> = (ApiErr \<lparr>reasonCode = (if is_abort e then timeout else network_error),
               message = (if is_abort e then ''MakerWorld API request timed out.''
                          else ''MakerWorld API request failed: '' @
                               error_message_or e ''Unknown network error''),
               err_status = None\<rparr>, Suc ?n)"
    using assms fetch_loop_last [where fetch=fetch and req="?req" and a="?n" and n="?n" and e=e]
    by simp
  finally show ?thesis by (simp only: fetchApiJson_run_def)
qed

text \<open>
  Claim C6.  Let \<open>n\<close> be the configured number of retries of a call of \<open>fetchApiJson\<close>:
  \<open>1\<close> when no options are given or \<open>retries\<close> is absent or not finite, and otherwise
  the given number truncated to an integer, \<open>0\<close> when that is negative.  When the
  attempts before attempt \<open>k \<le> n\<close> all failed at network level and attempt \<open>k\<close> is a
  response with a non-2xx status, the result is at once the failure for that status
  (404 is \<open>not_found\<close>; 401, 403 and 429 are \<open>upstream_blocked\<close>; 408 and 504 are
  \<open>timeout\<close>; any other status is \<open>network_error\<close>), with the message of that status
  and the status itself, and \<open>fetch\<close> has been called \<open>k + 1\<close> times, so the response is
  not retried.  When all \<open>n + 1\<close> attempts fail at network level, the result is
  \<open>timeout\<close> if the last error is an abort and \<open>network_error\<close> otherwise, after
  \<open>n + 1\<close> calls.  There are never more than \<open>n + 1\<close> calls, and every call but the last
  one made was a network-level failure.
\<close>

theorem C6_status_mapping_and_retries:
  "n = (case options of
          None \<Rightarrow> 1
        | Some opts \<Rightarrow>
            (case retries opts of
               None \<Rightarrow> 1
             | Some NotFinite \<Rightarrow> 1
             | Some (Num c) \<Rightarrow> if c < 0 then 0 else nat \<lfloor>c\<rfloor>)) \<longrightarrow>
   (k \<le> n \<and>
    (\<forall>i<k. network_failure (fetch (api_request pathname' options) i) \<noteq> None) \<and>
    fetch (api_request pathname' options) k = FetchResponds r \<and>
    \<not> (200 \<le> status r \<and> status r \<le> 299) \<longrightarrow>
      fetchApiJson_run p fetch pathname' options =
        (ApiErr \<lparr>reasonCode =
                    (if status r = 404 then not_found
                     else if status r = 401 \<or> status r = 403 \<or> status r = 429 then upstream_blocked
                     else if status r = 408 \<or> status r = 504 then timeout
                     else network_error),
                 message =
                    (if status r = 404 then ''MakerWorld resource was not found.''
                     else if status r = 401 \<or> status r = 403 \<or> status r = 429
                       then ''MakerWorld blocked the request ('' @ show_nat (status r) @ '').''
                     else if status r = 408 \<or> status r = 504 then ''MakerWorld request timed out.''
                     else ''MakerWorld API request failed ('' @ show_nat (status r) @ '').''),
                 err_status = Some (status r)\<rparr>,
         Suc k))
   \<and> ((\<forall>i<n. network_failure (fetch (api_request pathname' options) i) \<noteq> None) \<and>
       network_failure (fetch (api_request pathname' options) n) = Some e \<longrightarrow>
      fetchApiJson_run p fetch pathname' options =
        (ApiErr \<lparr>reasonCode = (if is_abort e then timeout else network_error),
                 message = (if is_abort e then ''MakerWorld API request timed out.''
                            else ''MakerWorld API request failed: '' @
                                 error_message_or e ''Unknown network error''),
                 err_status = None\<rparr>,
         Suc n))
   \<and> snd (fetchApiJson_run p fetch pathname' options) \<le> Suc n
   \<and> (Suc j < snd (fetchApiJson_run p fetch pathname' options) \<longrightarrow>
        network_failure (fetch (api_request pathname' options) j) \<noteq> None)"
proof
  let ?req = "api_request pathname' options"
  assume "n = (case options of
          None \<Rightarrow> 1
        | Some opts \<Rightarrow>
            (case retries opts of
               None \<Rightarrow> 1
             | Some NotFinite \<Rightarrow> 1
             | Some (Num c) \<Rightarrow> if c < 0 then 0 else nat \<lfloor>c\<rfloor>))"
  then have n: "n = effective_retries options"
    by (simp only: effective_retries_explicit)
  have c1: "k \<le> n \<and> (\<forall>i<k. network_failure (fetch ?req i) \<noteq> None) \<and>
            fetch ?req k = FetchResponds r \<and> \<not> (200 \<le> status r \<and> status r \<le> 299) \<longrightarrow>
      fetchApiJson_run p fetch pathname' options =
        (ApiErr \<lparr>reasonCode =
                    (if status r = 404 then not_found
                     else if status r = 401 \<or> status r = 403 \<or> status r = 429 then upstream_blocked
                     else if status r = 408 \<or> status r = 504 then timeout
                     else network_error),
                 message =
                    (if status r = 404 then ''MakerWorld resource was not found.''
                     else if status r = 401 \<or> status r = 403 \<or> status r = 429
                       then ''MakerWorld blocked the request ('' @ show_nat (status r) @ '').''
                     else if status r = 408 \<or> status r = 504 then ''MakerWorld request timed out.''
                     else ''MakerWorld API request failed ('' @ show_nat (status r) @ '').''),
                 err_status = Some (status r)\<rparr>,
         Suc k)"
  proof
    assume h: "k \<le> n \<and> (\<forall>i<k. network_failure (fetch ?req i) \<noteq> None) \<and>
            fetch ?req k = FetchResponds r \<and> \<not> (200 \<le> status r \<and> status r \<le> 299)"
    then have nok: "\<not> response_ok r" by (simp add: response_ok_def)
    have "fetchApiJson_run p fetch pathname' options =
           (ApiErr \<lparr>reasonCode = fst (mapHttpStatus (status r)),
                    message = snd (mapHttpStatus (status r)),
                    err_status = Some (status r)\<rparr>, Suc k)"
      using h n nok by (intro fetchApiJson_run_http_error) simp_all
    then show "fetchApiJson_run p fetch pathname' options =
        (ApiErr \<lparr>reasonCode =
                    (if status r = 404 then not_found
                     else if status r = 401 \<or> status r = 403 \<or> status r = 429 then upstream_blocked
                     else if status r = 408 \<or> status r = 504 then timeout
                     else network_error),
                 message =
                    (if status r = 404 then ''MakerWorld resource was not found.''
                     else if status r = 401 \<or> status r = 403 \<or> status r = 429
                       then ''MakerWorld blocked the request ('' @ show_nat (status r) @ '').''
                     else if status r = 408 \<or> status r = 504 then ''MakerWorld request timed out.''
                     else ''MakerWorld API request failed ('' @ show_nat (status r) @ '').''),
                 err_status = Some (status r)\<rparr>,
         Suc k)"
      by (simp add: mapHttpStatus_explicit)
  qed
  have c2: "(\<forall>i<n. network_failure (fetch ?req i) \<noteq> None) \<and>
       network_failure (fetch ?req n) = Some e \<longrightarrow>
      fetchApiJson_run p fetch pathname' options =
        (ApiErr \<lparr>reasonCode = (if is_abort e then timeout else network_error),
                 message = (if is_abort e then ''MakerWorld API request timed out.''
                            else ''MakerWorld API request failed: '' @
                                 error_message_or e ''Unknown network error''),
                 err_status = None\<rparr>,
         Suc n)"
    unfolding n using fetchApiJson_run_exhausted [of options fetch pathname' e p] by blast
  have c3: "snd (fetchApiJson_run p fetch pathname' options) \<le> Suc n"
    using fetch_loop_calls_bounds [of 0 p fetch ?req "effective_retries options"]
    by (simp add: fetchApiJson_run_def n)
  have c4: "Suc j < snd (fetchApiJson_run p fetch pathname' options) \<longrightarrow>
        network_failure (fetch ?req j) \<noteq> None"
    using fetch_loop_only_after_failure [of 0 j p fetch ?req "effective_retries options"]
    by (simp add: fetchApiJson_run_def)
  from c1 c2 c3 c4 show "(k \<le> n \<and>
    (\<forall>i<k. network_failure (fetch (api_request pathname' options) i) \<noteq> None) \<and>
    fetch (api_request pathname' options) k = FetchResponds r \<and>
    \<not> (200 \<le> status r \<and> status r \<le> 299) \<longrightarrow>
      fetchApiJson_run p fetch pathname' options =
        (ApiErr \<lparr>reasonCode =
                    (if status r = 404 then not_found
                     else if status r = 401 \<or> status r = 403 \<or> status r = 429 then upstream_blocked
                     else if status r = 408 \<or> status r = 504 then timeout
                     else network_error),
                 message =
                    (if status r = 404 then ''MakerWorld resource was not found.''
                     else if status r = 401 \<or> status r = 403 \<or> status r = 429
                       then ''MakerWorld blocked the request ('' @ show_nat (status r) @ '').''
                     else if status r = 408 \<or> status r = 504 then ''MakerWorld request timed out.''
                     else ''MakerWorld API request failed ('' @ show_nat (status r) @ '').''),
                 err_status = Some (status r)\<rparr>,
         Suc k))
   \<and> ((\<forall>i<n. network_failure (fetch (api_request pathname' options) i) \<noteq> None) \<and>
       network_failure (fetch (api_request pathname' options) n) = Some e \<longrightarrow>
      fetchApiJson_run p fetch pathname' options =
        (ApiErr \<lparr>reasonCode = (if is_abort e then timeout else network_error),
                 message = (if is_abort e then ''MakerWorld API request timed out.''
                            else ''MakerWorld API request failed: '' @
                                 error_message_or e ''Unknown network error''),
                 err_status = None\<rparr>,
         Suc n))
   \<and> snd (fetchApiJson_run p fetch pathname' options) \<le> Suc n
   \<and> (Suc j < snd (fetchApiJson_run p fetch pathname' options) \<longrightarrow>
        network_failure (fetch (api_request pathname' options) j) \<noteq> None)"
    by blast
qed

theorem C6_status_mapping_and_retries_witness:
  "fetchApiJson_run example_platform abort_twice_then_403 ''/design/1400/instances''
       (Some two_retries) =
     (ApiErr \<lparr>reasonCode = upstream_blocked,
              message = ''MakerWorld blocked the request (403).'',
              err_status = Some 403\<rparr>, 3)
   \<and> fetchApiJson_run example_platform always_abort ''/design/1400/instances''
       (Some two_retries) =
     (ApiErr \<lparr>reasonCode = timeout,
              message = ''MakerWorld API request timed out.'',
              err_status = None\<rparr>, 3)
   \<and> fetchApiJson_run example_platform always_abort ''/design/1400/instances''
       (Some no_retries) =
     (ApiErr \<lparr>reasonCode = timeout,
              message = ''MakerWorld API request timed out.'',
              err_status = None\<rparr>, 1)
   \<and> fetchApiJson_run example_platform abort_then_403 ''/design/1400/instances'' None =
     (ApiErr \<lparr>reasonCode = upstream_blocked,
              message = ''MakerWorld blocked the request (403).'',
              err_status = Some 403\<rparr>, 2)
   \<and> fetchApiJson_run example_platform always_abort ''/design/1400/instances'' None =
     (ApiErr \<lparr>reasonCode = timeout,
              message = ''MakerWorld API request timed out.'',
              err_status = None\<rparr>, 2)"
proof -
  let ?r = "\<lparr>status = 403, resp_url = [], resp_headers = [], resp_body = Inr ''{}''\<rparr>"
  let ?e = "JsError ''AbortError'' ''aborted''"
  have s: "show_nat 403 = ''403''" by code_simp
  have a: "fetchApiJson_run example_platform abort_twice_then_403 ''/design/1400/instances''
       (Some two_retries) =
     (ApiErr \<lparr>reasonCode = upstream_blocked,
              message = ''MakerWorld blocked the request (403).'',
              err_status = Some 403\<rparr>, 3)"
    using C6_status_mapping_and_retries
            [where n=2 and k=2 and options="Some two_retries" and fetch=abort_twice_then_403
               and r="?r" and pathname'="''/design/1400/instances''" and p=example_platform]
    by (simp add: s two_retries_def abort_twice_then_403_def network_failure_def del: show_nat.simps)
  have b: "fetchApiJson_run example_platform always_abort ''/design/1400/instances''
       (Some two_retries) =
     (ApiErr \<lparr>reasonCode = timeout,
              message = ''MakerWorld API request timed out.'',
              err_status = None\<rparr>, 3)"
    using C6_status_mapping_and_retries
            [where n=2 and options="Some two_retries" and fetch=always_abort and e="?e"
               and pathname'="''/design/1400/instances''" and p=example_platform]
    by (simp add: two_retries_def always_abort_def network_failure_def is_abort_def)
  have c: "fetchApiJson_run example_platform always_abort ''/design/1400/instances''
       (Some no_retries) =
     (ApiErr \<lparr>reasonCode = timeout,
              message = ''MakerWorld API request timed out.'',
              err_status = None\<rparr>, 1)"
    using C6_status_mapping_and_retries
            [where n=0 and options="Some no_retries" and fetch=always_abort and e="?e"
               and pathname'="''/design/1400/instances''" and p=example_platform]
    by (simp add: no_retries_def always_abort_def network_failure_def is_abort_def)
  have d: "fetchApiJson_run example_platform abort_then_403 ''/design/1400/instances'' None =
     (ApiErr \<lparr>reasonCode = upstream_blocked,
              message = ''MakerWorld blocked the request (403).'',
              err_status = Some 403\<rparr>, 2)"
    using C6_status_mapping_and_retries
            [where n=1 and k=1 and options=None and fetch=abort_then_403 and r="?r"
               and pathname'="''/design/1400/instances''" and p=example_platform]
    by (simp add: s abort_then_403_def network_failure_def del: show_nat.simps)
  have e: "fetchApiJson_run example_platform always_abort ''/design/1400/instances'' None =
     (ApiErr \<lparr>reasonCode = timeout,
              message = ''MakerWorld API request timed out.'',
              err_status = None\<rparr>, 2)"
    using C6_status_mapping_and_retries
            [where n=1 and options=None and fetch=always_abort and e="?e"
               and pathname'="''/design/1400/instances''" and p=example_platform]
    by (simp add: always_abort_def network_failure_def is_abort_def)
  from a b c d e show ?thesis by blast
qed

section \<open>Variant selection precedence\<close>

lemma findVariantByRequestedId_Some:
  "findVariantByRequestedId vs i = Some v \<Longrightarrow> v \<in> set vs \<and> matches_id i v"
  by (auto simp: findVariantByRequestedId_def matches_id_def find_Some_iff)

lemma findVariantByRequestedId_None:
  "findVariantByRequestedId vs i = None \<longleftrightarrow> (\<forall>v \<in> set vs. \<not> matches_id i v)"
  by (auto simp: findVariantByRequestedId_def matches_id_def find_None_iff)

lemma compareVariants_refl: "compareVariants a a = 0"
  by (simp add: compareVariants_def sign_diff_inf_def split: option.splits)

lemma sign_diff_inf_trans:
  "sign_diff_inf a b \<le> 0 \<Longrightarrow> sign_diff_inf b c \<le> 0 \<Longrightarrow> sign_diff_inf a c \<le> 0"
  by (auto simp: sign_diff_inf_def split: option.splits if_splits)

lemma sign_diff_inf_zero: "sign_diff_inf a b = 0 \<longleftrightarrow> a = b"
  by (auto simp: sign_diff_inf_def split: option.splits if_splits)

lemma sign_diff_inf_antisym:
  "sign_diff_inf a b \<le> 0 \<Longrightarrow> sign_diff_inf b a \<le> 0 \<Longrightarrow> a = b"
  by (auto simp: sign_diff_inf_def split: option.splits if_splits)

lemma compareVariants_trans:
  assumes "compareVariants a b \<le> 0" "compareVariants b c \<le> 0"
  shows "compareVariants a c \<le> 0"
proof (cases "estimatedHours a = estimatedHours b")
  case ab: True
  show ?thesis
  proof (cases "estimatedHours b = estimatedHours c")
    case True
    with ab assms show ?thesis
      by (auto simp: compareVariants_def intro: sign_diff_inf_trans)
  next
    case False
    with ab assms show ?thesis by (auto simp: compareVariants_def)
  qed
next
  case ab: False
  show ?thesis
  proof (cases "estimatedHours b = estimatedHours c")
    case True
    with ab assms show ?thesis by (auto simp: compareVariants_def)
  next
    case False
    have 1: "sign_diff_inf (estimatedHours a) (estimatedHours b) \<le> 0"
      using assms ab by (simp add: compareVariants_def)
    have 2: "sign_diff_inf (estimatedHours b) (estimatedHours c) \<le> 0"
      using assms False by (simp add: compareVariants_def)
    have 3: "sign_diff_inf (estimatedHours a) (estimatedHours c) \<le> 0"
      using 1 2 by (rule sign_diff_inf_trans)
    have "estimatedHours a \<noteq> estimatedHours c"
    proof
      assume "estimatedHours a = estimatedHours c"
      with 1 2 have "estimatedHours a = estimatedHours b"
        using sign_diff_inf_antisym by metis
      with ab show False by simp
    qed
    with 3 show ?thesis by (simp add: compareVariants_def)
  qed
qed

lemma compareVariants_total: "compareVariants a b \<le> 0 \<or> compareVariants b a \<le> 0"
  by (auto simp: compareVariants_def sign_diff_inf_def split: option.splits if_splits)

lemma set_insort_by: "set (insort_by c x xs) = insert x (set xs)"
  by (induction xs) auto

lemma set_scoreAndSortVariants: "set (scoreAndSortVariants vs) = set vs"
  by (induction vs) (auto simp: scoreAndSortVariants_def set_insort_by)

lemma length_insort_by: "length (insort_by c x xs) = Suc (length xs)"
  by (induction xs) auto

lemma sorted_insort_by:
  "sorted_wrt (\<lambda>a b. compareVariants a b \<le> 0) xs \<Longrightarrow>
   sorted_wrt (\<lambda>a b. compareVariants a b \<le> 0) (insort_by compareVariants x xs)"
proof (induction xs)
  case Nil
  then show ?case by simp
next
  case (Cons y ys)
  show ?case
  proof (cases "compareVariants x y \<le> 0")
    case True
    then have "\<forall>z \<in> set ys. compareVariants x z \<le> 0"
      using Cons.prems compareVariants_trans by auto
    with True Cons.prems show ?thesis by simp
  next
    case False
    then have "compareVariants y x \<le> 0" using compareVariants_total by blast
    with False Cons show ?thesis by (auto simp: set_insort_by)
  qed
qed

lemma sorted_scoreAndSortVariants:
  "sorted_wrt (\<lambda>a b. compareVariants a b \<le> 0) (scoreAndSortVariants vs)"
  by (induction vs) (auto simp: scoreAndSortVariants_def sorted_insort_by)

lemma first_of_sorted_least:
  assumes "first_of (scoreAndSortVariants vs) = Some m" "v \<in> set vs"
  shows "compareVariants m v \<le> 0"
proof -
  obtain rest where eq: "scoreAndSortVariants vs = m # rest"
    using assms(1) by (auto simp: first_of_def split: list.splits)
  have "v \<in> set (m # rest)" using assms(2) set_scoreAndSortVariants eq by metis
  moreover have "sorted_wrt (\<lambda>a b. compareVariants a b \<le> 0) (m # rest)"
    using sorted_scoreAndSortVariants [of vs] eq by simp
  ultimately show ?thesis using compareVariants_refl [of m] by auto
qed

lemma compareVariants_hours:
  "compareVariants a b \<le> 0 \<Longrightarrow> estimatedHours a = Some x \<Longrightarrow> estimatedHours b = Some y \<Longrightarrow> x \<le> y"
  by (auto simp: compareVariants_def sign_diff_inf_def split: if_splits)

text \<open>
  Claim C1 (as amended).  For every candidate pool, sorted by \<open>scoreAndSortVariants\<close>, and
  every pair of optional identifiers: (a) when the hash-requested identifier is given and
  found in the pool, that variant is selected with strategy \<open>requested_variant_id\<close>;
  when it is given and absent, the first pool entry is selected with strategy
  \<open>shortest_time_fallback\<close> and a warning is added, whether or not a caller-supplied
  identifier was given; (b) the caller-supplied identifier is consulted only when no
  hash-requested identifier was given: found, it is selected with strategy
  \<open>user_selected_variant\<close>; absent, the first pool entry is selected with a warning;
  (c) with neither identifier the first pool entry is selected, without a warning.  The
  first pool entry is least for the comparator, so no entry of the pool has a shorter
  time.
\<close>

theorem C1_selection_precedence:
  "(hashId = Some rid \<and> findVariantByRequestedId (scoreAndSortVariants pool) rid = Some v \<longrightarrow>
      select_variant (scoreAndSortVariants pool) hashId callerId warns =
        (Some v, requested_variant_id, warns) \<and> v \<in> set pool \<and> matches_id rid v)
   \<and> (hashId = Some rid \<and> (\<forall>v \<in> set pool. \<not> matches_id rid v) \<longrightarrow>
      select_variant (scoreAndSortVariants pool) hashId callerId warns =
        (first_of (scoreAndSortVariants pool), shortest_time_fallback,
         warns @ [warn_requested_unavailable]))
   \<and> (hashId = None \<and> callerId = Some uid \<and>
       findVariantByRequestedId (scoreAndSortVariants pool) uid = Some v \<longrightarrow>
      select_variant (scoreAndSortVariants pool) hashId callerId warns =
        (Some v, user_selected_variant, warns) \<and> v \<in> set pool \<and> matches_id uid v)
   \<and> (hashId = None \<and> callerId = Some uid \<and>
       (\<forall>v \<in> set pool. \<not> matches_id uid v) \<longrightarrow>
      select_variant (scoreAndSortVariants pool) hashId callerId warns =
        (first_of (scoreAndSortVariants pool), shortest_time_fallback,
         warns @ [warn_selected_unavailable]))
   \<and> (hashId = None \<and> callerId = None \<longrightarrow>
      select_variant (scoreAndSortVariants pool) hashId callerId warns =
        (first_of (scoreAndSortVariants pool), shortest_time_fallback, warns))
   \<and> (first_of (scoreAndSortVariants pool) = Some m \<and> w \<in> set pool \<longrightarrow>
        m \<in> set pool \<and> compareVariants m w \<le> 0 \<and>
        (\<forall>x y. estimatedHours m = Some x \<and> estimatedHours w = Some y \<longrightarrow> x \<le> y))"
proof (intro conjI impI)
  let ?sp = "scoreAndSortVariants pool"
  {
    assume h: "hashId = Some rid \<and> findVariantByRequestedId ?sp rid = Some v"
    then show "select_variant ?sp hashId callerId warns =
        (Some v, requested_variant_id, warns)"
      by (simp add: select_variant_def)
    from h show "v \<in> set pool" "matches_id rid v"
      using findVariantByRequestedId_Some [of ?sp rid v] set_scoreAndSortVariants by auto
  }
  {
    assume h: "hashId = Some rid \<and> (\<forall>v \<in> set pool. \<not> matches_id rid v)"
    then have "findVariantByRequestedId ?sp rid = None"
      by (simp add: findVariantByRequestedId_None set_scoreAndSortVariants)
    with h show "select_variant ?sp hashId callerId warns =
        (first_of ?sp, shortest_time_fallback, warns @ [warn_requested_unavailable])"
      by (simp add: select_variant_def first_of_def)
  }
  {
    assume h: "hashId = None \<and> callerId = Some uid \<and>
       findVariantByRequestedId ?sp uid = Some v"
    then show "select_variant ?sp hashId callerId warns =
        (Some v, user_selected_variant, warns)"
      by (simp add: select_variant_def)
    from h show "v \<in> set pool" "matches_id uid v"
      using findVariantByRequestedId_Some [of ?sp uid v] set_scoreAndSortVariants by auto
  }
  {
    assume h: "hashId = None \<and> callerId = Some uid \<and>
       (\<forall>v \<in> set pool. \<not> matches_id uid v)"
    then have "findVariantByRequestedId ?sp uid = None"
      by (simp add: findVariantByRequestedId_None set_scoreAndSortVariants)
    with h show "select_variant ?sp hashId callerId warns =
        (first_of ?sp, shortest_time_fallback, warns @ [warn_selected_unavailable])"
      by (simp add: select_variant_def first_of_def)
  }
  {
    assume "hashId = None \<and> callerId = None"
    then show "select_variant ?sp hashId callerId warns =
        (first_of ?sp, shortest_time_fallback, warns)"
      by (simp add: select_variant_def first_of_def)
  }
  {
    assume h: "first_of ?sp = Some m \<and> w \<in> set pool"
    then have "m \<in> set ?sp" by (auto simp: first_of_def split: list.splits)
    then show "m \<in> set pool" by (simp add: set_scoreAndSortVariants)
    from h show le: "compareVariants m w \<le> 0" using first_of_sorted_least by blast
    then show "\<forall>x y. estimatedHours m = Some x \<and> estimatedHours w = Some y \<longrightarrow> x \<le> y"
      using compareVariants_hours by blast
  }
qed

theorem C1_selection_precedence_witness:
  "select_variant (scoreAndSortVariants [example_variant 7 3, example_variant 5 2]) (Some 7) None [] =
     (Some (example_variant 7 3), requested_variant_id, [])
   \<and> select_variant (scoreAndSortVariants [example_variant 7 3, example_variant 5 2]) None (Some 9) [] =
     (Some (example_variant 5 2), shortest_time_fallback, [warn_selected_unavailable])"
proof -
  let ?pool = "[example_variant 7 3, example_variant 5 2]"
  have s: "scoreAndSortVariants ?pool = [example_variant 5 2, example_variant 7 3]"
    by code_simp
  have f: "findVariantByRequestedId (scoreAndSortVariants ?pool) 7 = Some (example_variant 7 3)"
    by code_simp
  have n: "\<forall>v \<in> set ?pool. \<not> matches_id 9 v"
    by (simp add: matches_id_def example_variant_def)
  have a: "select_variant (scoreAndSortVariants ?pool) (Some 7) None [] =
             (Some (example_variant 7 3), requested_variant_id, [])"
    using C1_selection_precedence
            [where hashId="Some 7" and rid=7 and pool="?pool" and v="example_variant 7 3"
               and callerId=None and warns="[]"] f
    by simp
  have b: "select_variant (scoreAndSortVariants ?pool) None (Some 9) [] =
             (first_of (scoreAndSortVariants ?pool), shortest_time_fallback, [warn_selected_unavailable])"
    using C1_selection_precedence
            [where hashId=None and callerId="Some 9" and uid=9 and pool="?pool" and warns="[]"] n
    by simp
  show ?thesis using a b by (simp add: s first_of_def)
qed

text \<open>
  The claim as first stated fails when the hash-requested identifier is absent from the
  pool and the caller-supplied one is present: the caller's variant is not selected.
\<close>

theorem C1_no_fall_through_counterexample:
  "findVariantByRequestedId (scoreAndSortVariants [example_variant 7 3, example_variant 5 2]) 9 = None
   \<and> findVariantByRequestedId (scoreAndSortVariants [example_variant 7 3, example_variant 5 2]) 7 =
       Some (example_variant 7 3)
   \<and> select_variant (scoreAndSortVariants [example_variant 7 3, example_variant 5 2]) (Some 9) (Some 7) [] =
       (Some (example_variant 5 2), shortest_time_fallback, [warn_requested_unavailable])"
  by code_simp

section \<open>Facts about warnings and the worked URL\<close>

lemma set_dedupe_strings: "set (dedupe_strings xs) = set xs"
  by (simp add: dedupe_strings_def set_foldl_set_add)

lemma distinct_foldl_set_add: "distinct s \<Longrightarrow> distinct (foldl set_add s xs)"
  by (induction xs arbitrary: s) (auto simp: set_add_def)

lemma distinct_dedupe_strings: "distinct (dedupe_strings xs)"
  by (simp add: dedupe_strings_def distinct_foldl_set_add)

lemma prefix_foldl_set_add: "prefix s (foldl set_add s xs)"
proof (induction xs arbitrary: s)
  case Nil
  then show ?case by simp
next
  case (Cons x xs)
  have "prefix s (set_add s x)" by (simp add: set_add_def)
  then show ?case using Cons [of "set_add s x"] prefix_order.order_trans by fastforce
qed

lemma finite_number_of_digits_small:
  assumes "nat_of_digits ds = n" "n < 2 ^ 53"
  shows "finite_number_of_digits ds = Some n"
  using assms by (simp add: finite_number_of_digits_def double_of_nat_def)

lemma example_url_parsed:
  "new_URL example_platform ''https://makerworld.com/en/models/1400-demo#profileId-77'' =
     Some \<lparr>protocol = ''https:'', authority = ''makerworld.com'', hostname = ''makerworld.com'',
           pathname = ''/en/models/1400-demo'', search = [], hash = ''#profileId-77''\<rparr>"
  by (simp add: example_platform_def example_urls_def)

lemma example_normalize:
  "normalizeSourceUrl example_platform ''https://makerworld.com/en/models/1400-demo#profileId-77'' =
     NormOk ''https://makerworld.com/en/models/1400-demo'' 1400 (Some 77)"
proof -
  have h: "host_allowed ''makerworld.com''" by code_simp
  have m: "has_model_segment ''/en/models/1400-demo''" by code_simp
  have d: "match_design_digits ''/en/models/1400-demo'' = Some ''1400''" by code_simp
  have f: "match_profile_digits ''#profileId-77'' = Some ''77''" by code_simp
  have n1: "nat_of_digits ''1400'' = 1400" by code_simp
  have n2: "nat_of_digits ''77'' = 77" by code_simp
  have d': "design_id_of_path ''/en/models/1400-demo'' = Some 1400"
    using finite_number_of_digits_small [OF n1] by (simp add: design_id_of_path_def d)
  have f': "variant_id_of_hash ''#profileId-77'' = Some 77"
    using finite_number_of_digits_small [OF n2] by (simp add: variant_id_of_hash_def f)
  show ?thesis
    by (simp add: normalizeSourceUrl_def example_url_parsed h m d' f' url_toString_def)
qed

section \<open>Faults inside the resolver\<close>

text \<open>
  Claim C3.  \<open>resolveMakerWorldModel\<close> always returns an outcome: what its \<open>try\<close> block
  returns, or, when anything inside the block throws, a failure with reason
  \<open>network_error\<close> and the generic message.  The diagnostics of that failure are the
  diagnostics collected up to the throw: the same pipeline, the attempts so far followed
  by one failed attempt for the fault, and the warnings so far together with the recovery
  warning.  This holds for a fault in the API stage and for a fault in the fallback stage,
  whatever the stages do.  With the stages of the source nothing is thrown at all, whatever
  the fetch primitive does: its thrown errors are turned into failures inside the stages.
\<close>

theorem C3_faults_become_failure_outcomes:
  "resolveMakerWorldModel p st url options =
     (case fst (resolve_try p st url options) of
        Inr outcome \<Rightarrow> outcome
      | Inl (error, d) \<Rightarrow>
          Unresolvable network_error generic_failure_message
            (d\<lparr>warnings := dedupe_strings (warnings d @ [recovered_warning]),
               attempts := attempts d @
                 [failed_attempt (if pipeline d = [] then api else last (pipeline d)) network_error
                    (error_message_or error ''MakerWorld resolver failed unexpectedly.'')]\<rparr>))
   \<and> (fst (resolve_try p st url options) = Inl (error, d) \<longrightarrow>
        (\<exists>d'. resolveMakerWorldModel p st url options =
                 Unresolvable network_error generic_failure_message d' \<and>
               pipeline d' = pipeline d \<and>
               prefix (attempts d) (attempts d') \<and>
               set (warnings d) \<subseteq> set (warnings d')))
   \<and> (normalizeSourceUrl p url = NormOk n did rid \<and>
       run_api st \<lparr>ai_sourceUrl = n, ai_designId = did, ai_requestedVariantId = rid,
                   ai_userVariantId = userVariantId_of options\<rparr> = Inl error \<longrightarrow>
        resolveMakerWorldModel p st url options =
          Unresolvable network_error generic_failure_message
            \<lparr>pipeline = [], warnings = [recovered_warning],
             attempts = [failed_attempt api network_error
                           (error_message_or error ''MakerWorld resolver failed unexpectedly.'')]\<rparr>)
   \<and> (normalizeSourceUrl p url = NormOk n did rid \<and>
       run_api st \<lparr>ai_sourceUrl = n, ai_designId = did, ai_requestedVariantId = rid,
                   ai_userVariantId = userVariantId_of options\<rparr> = Inr (PipelineFail rc1 msg1 ws1) \<and>
       run_next_data st \<lparr>ni_sourceUrl = n, ni_requestedVariantId = rid,
                         ni_userVariantId = userVariantId_of options\<rparr> = Inl error \<longrightarrow>
        resolveMakerWorldModel p st url options =
          Unresolvable network_error generic_failure_message
            \<lparr>pipeline = [api], warnings = [recovered_warning],
             attempts = [failed_attempt api rc1 msg1,
                         failed_attempt api network_error
                           (error_message_or error ''MakerWorld resolver failed unexpectedly.'')]\<rparr>)
   \<and> (\<exists>outcome. fst (resolve_try p (real_stages p h fetch) url options) = Inr outcome)"
proof (intro conjI impI)
  show eq: "resolveMakerWorldModel p st url options =
     (case fst (resolve_try p st url options) of
        Inr outcome \<Rightarrow> outcome
      | Inl (error, d) \<Rightarrow>
          Unresolvable network_error generic_failure_message
            (d\<lparr>warnings := dedupe_strings (warnings d @ [recovered_warning]),
               attempts := attempts d @
                 [failed_attempt (if pipeline d = [] then api else last (pipeline d)) network_error
                    (error_message_or error ''MakerWorld resolver failed unexpectedly.'')]\<rparr>))"
    by (cases "resolve_try p st url options")
       (auto simp: resolveMakerWorldModel_def resolveMakerWorldModel_run_def resolve_catch_def
                   toResolveFailure_def Let_def split: sum.splits prod.splits)
  {
    assume h: "fst (resolve_try p st url options) = Inl (error, d)"
    let ?d' = "d\<lparr>warnings := dedupe_strings (warnings d @ [recovered_warning]),
               attempts := attempts d @
                 [failed_attempt (if pipeline d = [] then api else last (pipeline d)) network_error
                    (error_message_or error ''MakerWorld resolver failed unexpectedly.'')]\<rparr>"
    have "resolveMakerWorldModel p st url options =
            Unresolvable network_error generic_failure_message ?d'"
      using eq h by simp
    moreover have "pipeline ?d' = pipeline d" by simp
    moreover have "prefix (attempts d) (attempts ?d')" by simp
    moreover have "set (warnings d) \<subseteq> set (warnings ?d')" by (auto simp: set_dedupe_strings)
    ultimately show "\<exists>d'. resolveMakerWorldModel p st url options =
                 Unresolvable network_error generic_failure_message d' \<and>
               pipeline d' = pipeline d \<and>
               prefix (attempts d) (attempts d') \<and>
               set (warnings d) \<subseteq> set (warnings d')"
      by blast
  }
  have w: "dedupe_strings [recovered_warning] = [recovered_warning]"
    by (simp add: dedupe_strings_def set_add_def)
  {
    assume h: "normalizeSourceUrl p url = NormOk n did rid \<and>
       run_api st \<lparr>ai_sourceUrl = n, ai_designId = did, ai_requestedVariantId = rid,
                   ai_userVariantId = userVariantId_of options\<rparr> = Inl error"
    then have "fst (resolve_try p st url options) = Inl (error, empty_diagnostics)"
      by (simp add: resolve_try_def Let_def)
    then show "resolveMakerWorldModel p st url options =
          Unresolvable network_error generic_failure_message
            \<lparr>pipeline = [], warnings = [recovered_warning],
             attempts = [failed_attempt api network_error
                           (error_message_or error ''MakerWorld resolver failed unexpectedly.'')]\<rparr>"
      using eq by (simp add: empty_diagnostics_def w)
  }
  {
    assume h: "normalizeSourceUrl p url = NormOk n did rid \<and>
       run_api st \<lparr>ai_sourceUrl = n, ai_designId = did, ai_requestedVariantId = rid,
                   ai_userVariantId = userVariantId_of options\<rparr> = Inr (PipelineFail rc1 msg1 ws1) \<and>
       run_next_data st \<lparr>ni_sourceUrl = n, ni_requestedVariantId = rid,
                         ni_userVariantId = userVariantId_of options\<rparr> = Inl error"
    then have "fst (resolve_try p st url options) =
                 Inl (error, \<lparr>pipeline = [api], warnings = [],
                              attempts = [failed_attempt api rc1 msg1]\<rparr>)"
      by (simp add: resolve_try_def Let_def empty_diagnostics_def)
    then show "resolveMakerWorldModel p st url options =
          Unresolvable network_error generic_failure_message
            \<lparr>pipeline = [api], warnings = [recovered_warning],
             attempts = [failed_attempt api rc1 msg1,
                         failed_attempt api network_error
                           (error_message_or error ''MakerWorld resolver failed unexpectedly.'')]\<rparr>"
      using eq by (simp add: w)
  }
  show "\<exists>outcome. fst (resolve_try p (real_stages p h fetch) url options) = Inr outcome"
    by (simp add: resolve_try_def real_stages_def Let_def
             split: normalize_result.splits ResolvePipelineResult.splits)
qed

theorem C3_faults_become_failure_outcomes_witness:
  "resolveMakerWorldModel example_platform faulty_stages
     ''https://makerworld.com/en/models/1400-demo#profileId-77'' None =
     Unresolvable network_error generic_failure_message
       \<lparr>pipeline = [api], warnings = [recovered_warning],
        attempts = [failed_attempt api upstream_blocked ''blocked'',
                    failed_attempt api network_error ''boom'']\<rparr>"
proof -
  have h: "normalizeSourceUrl example_platform
             ''https://makerworld.com/en/models/1400-demo#profileId-77'' =
             NormOk ''https://makerworld.com/en/models/1400-demo'' 1400 (Some 77) \<and>
           run_api faulty_stages
             \<lparr>ai_sourceUrl = ''https://makerworld.com/en/models/1400-demo'', ai_designId = 1400,
              ai_requestedVariantId = Some 77, ai_userVariantId = userVariantId_of None\<rparr> =
             Inr (PipelineFail upstream_blocked ''blocked'' [''w'']) \<and>
           run_next_data faulty_stages
             \<lparr>ni_sourceUrl = ''https://makerworld.com/en/models/1400-demo'',
              ni_requestedVariantId = Some 77, ni_userVariantId = userVariantId_of None\<rparr> =
             Inl (JsError ''TypeError'' ''boom'')"
    using example_normalize by (simp add: faulty_stages_def)
  show ?thesis
    using C3_faults_become_failure_outcomes
            [THEN conjunct2, THEN conjunct2, THEN conjunct2, THEN conjunct1, THEN mp, OF h]
    by (simp add: error_message_or_def)
qed

section \<open>Both stages fail\<close>

lemma fetchDesignInstances_403:
  assumes "fetch (api_request (''/design/'' @ number_string p did @ ''/instances'') None) 0 = FetchResponds r"
    and "status r = 403"
  shows "fetchDesignInstances p fetch did None =
           ApiErr \<lparr>reasonCode = upstream_blocked,
                   message = ''MakerWorld blocked the request (403).'',
                   err_status = Some 403\<rparr>"
proof -
  have nok: "\<not> response_ok r" using assms(2) by (simp add: response_ok_def)
  have m: "mapHttpStatus 403 = (upstream_blocked, ''MakerWorld blocked the request (403).'')"
    by code_simp
  show ?thesis
    using fetch_loop_http_error
            [where fetch=fetch and a=0 and r=r and p=p and n="effective_retries None"
               and req="api_request (''/design/'' @ number_string p did @ ''/instances'') None",
             OF assms(1) nok]
    by (simp add: fetchDesignInstances_def fetchApiJson_def fetchApiJson_run_def assms(2) m)
qed

lemma resolveViaApi_403:
  assumes "fetch (api_request (''/design/'' @ number_string p (ai_designId input) @ ''/instances'') None) 0 =
             FetchResponds r"
    and "status r = 403"
  shows "resolveViaApi p h fetch input =
           PipelineFail upstream_blocked ''MakerWorld blocked the request (403).'' []"
  using fetchDesignInstances_403 [where fetch=fetch and did="ai_designId input" and r=r and p=p] assms
  by (simp add: resolveViaApi_def Let_def)

text \<open>
  Claim C4.  When the API stage fails and the fallback stage fails, the outcome is a
  failure with the reason code and the message of the fallback stage; its warnings are
  the warnings of the two stages, merged and without duplicates; its pipeline is
  \<open>[api, next_data]\<close> and its attempts are two records, in stage order: the API stage, not ok,
  with the reason code and message of the API stage, then the fallback stage, not ok, with
  the reason code and message of the fallback stage.  When the instances endpoint answers HTTP 403, the API stage fails with
  \<open>upstream_blocked\<close>, the fallback stage is started next, the pipeline of the
  outcome is \<open>[api, next_data]\<close>, and the first attempt recorded is the blocked API attempt.
\<close>

theorem C4_both_stages_fail:
  "(normalizeSourceUrl p url = NormOk n did rid \<and>
    run_api st \<lparr>ai_sourceUrl = n, ai_designId = did, ai_requestedVariantId = rid,
                ai_userVariantId = userVariantId_of options\<rparr> = Inr (PipelineFail rc1 msg1 ws1) \<and>
    run_next_data st \<lparr>ni_sourceUrl = n, ni_requestedVariantId = rid,
                      ni_userVariantId = userVariantId_of options\<rparr> = Inr (PipelineFail rc2 msg2 ws2) \<longrightarrow>
      resolveMakerWorldModel p st url options =
        Unresolvable rc2 msg2
          \<lparr>pipeline = [api, next_data],
           warnings = dedupe_strings (ws1 @ ws2),
           attempts = [\<lparr>att_source = api, att_ok = False, att_reasonCode = Some rc1,
                        att_message = msg1\<rparr>,
                       \<lparr>att_source = next_data, att_ok = False, att_reasonCode = Some rc2,
                        att_message = msg2\<rparr>]\<rparr>
      \<and> distinct (dedupe_strings (ws1 @ ws2))
      \<and> set (dedupe_strings (ws1 @ ws2)) = set ws1 \<union> set ws2)
   \<and> (normalizeSourceUrl p url = NormOk n did rid \<and>
       fetch (api_request (''/design/'' @ number_string p did @ ''/instances'') None) 0 = FetchResponds r \<and>
       status r = 403 \<longrightarrow>
      snd (resolveMakerWorldModel_run p (real_stages p h fetch) url options) =
        [CallApi \<lparr>ai_sourceUrl = n, ai_designId = did, ai_requestedVariantId = rid,
                  ai_userVariantId = userVariantId_of options\<rparr>,
         CallNextData \<lparr>ni_sourceUrl = n, ni_requestedVariantId = rid,
                       ni_userVariantId = userVariantId_of options\<rparr>]
      \<and> pipeline (outcome_diagnostics (resolveMakerWorldModel p (real_stages p h fetch) url options)) =
          [api, next_data]
      \<and> take 1 (attempts (outcome_diagnostics
                    (resolveMakerWorldModel p (real_stages p h fetch) url options))) =
          [\<lparr>att_source = api, att_ok = False, att_reasonCode = Some upstream_blocked,
            att_message = ''MakerWorld blocked the request (403).''\<rparr>])"
proof (intro conjI impI)
  {
    assume h: "normalizeSourceUrl p url = NormOk n did rid \<and>
      run_api st \<lparr>ai_sourceUrl = n, ai_designId = did, ai_requestedVariantId = rid,
                  ai_userVariantId = userVariantId_of options\<rparr> = Inr (PipelineFail rc1 msg1 ws1) \<and>
      run_next_data st \<lparr>ni_sourceUrl = n, ni_requestedVariantId = rid,
                        ni_userVariantId = userVariantId_of options\<rparr> = Inr (PipelineFail rc2 msg2 ws2)"
    then show "resolveMakerWorldModel p st url options =
        Unresolvable rc2 msg2
          \<lparr>pipeline = [api, next_data],
           warnings = dedupe_strings (ws1 @ ws2),
           attempts = [\<lparr>att_source = api, att_ok = False, att_reasonCode = Some rc1,
                        att_message = msg1\<rparr>,
                       \<lparr>att_source = next_data, att_ok = False, att_reasonCode = Some rc2,
                        att_message = msg2\<rparr>]\<rparr>"
      by (simp add: resolveMakerWorldModel_def resolveMakerWorldModel_run_def resolve_try_def
                    Let_def empty_diagnostics_def toResolveFailure_def failed_attempt_def)
    show "distinct (dedupe_strings (ws1 @ ws2))" by (rule distinct_dedupe_strings)
    show "set (dedupe_strings (ws1 @ ws2)) = set ws1 \<union> set ws2"
      by (simp add: set_dedupe_strings)
  }
  {
    assume h: "normalizeSourceUrl p url = NormOk n did rid \<and>
       fetch (api_request (''/design/'' @ number_string p did @ ''/instances'') None) 0 = FetchResponds r \<and>
       status r = 403"
    let ?ai = "\<lparr>ai_sourceUrl = n, ai_designId = did, ai_requestedVariantId = rid,
                  ai_userVariantId = userVariantId_of options\<rparr>"
    let ?ni = "\<lparr>ni_sourceUrl = n, ni_requestedVariantId = rid,
                       ni_userVariantId = userVariantId_of options\<rparr>"
    have a: "run_api (real_stages p h fetch) ?ai =
               Inr (PipelineFail upstream_blocked ''MakerWorld blocked the request (403).'' [])"
      using h resolveViaApi_403 [where input="?ai" and fetch=fetch and r=r and p=p and h=h]
      by (simp add: real_stages_def)
    have b: "run_next_data (real_stages p h fetch) ?ni = Inr (resolveViaNextData p h fetch ?ni)"
      by (simp add: real_stages_def)
    show "snd (resolveMakerWorldModel_run p (real_stages p h fetch) url options) =
            [CallApi ?ai, CallNextData ?ni]"
      using h a b
      by (cases "resolveViaNextData p h fetch ?ni")
         (simp_all add: resolveMakerWorldModel_run_def resolve_try_def Let_def)
    show "pipeline (outcome_diagnostics (resolveMakerWorldModel p (real_stages p h fetch) url options)) =
          [api, next_data]"
      using h a b
      by (cases "resolveViaNextData p h fetch ?ni")
         (simp_all add: resolveMakerWorldModel_def resolveMakerWorldModel_run_def resolve_try_def
                        Let_def empty_diagnostics_def toResolveFailure_def outcome_diagnostics_def)
    show "take 1 (attempts (outcome_diagnostics
                    (resolveMakerWorldModel p (real_stages p h fetch) url options))) =
          [\<lparr>att_source = api, att_ok = False, att_reasonCode = Some upstream_blocked,
            att_message = ''MakerWorld blocked the request (403).''\<rparr>]"
      using h a b
      by (cases "resolveViaNextData p h fetch ?ni")
         (simp_all add: resolveMakerWorldModel_def resolveMakerWorldModel_run_def resolve_try_def
                        Let_def empty_diagnostics_def toResolveFailure_def outcome_diagnostics_def
                        failed_attempt_def)
  }
qed

theorem C4_both_stages_fail_witness:
  "resolveMakerWorldModel example_platform failing_stages
     ''https://makerworld.com/en/models/1400-demo#profileId-77'' None =
     Unresolvable malformed_payload ''no payload''
       \<lparr>pipeline = [api, next_data],
        warnings = [''w'', ''a'', ''b''],
        attempts = [\<lparr>att_source = api, att_ok = False, att_reasonCode = Some upstream_blocked,
                     att_message = ''blocked''\<rparr>,
                    \<lparr>att_source = next_data, att_ok = False,
                     att_reasonCode = Some malformed_payload, att_message = ''no payload''\<rparr>]\<rparr>
   \<and> pipeline (outcome_diagnostics
        (resolveMakerWorldModel example_platform
           (real_stages example_platform no_heuristics instances_403)
           ''https://makerworld.com/en/models/1400-demo#profileId-77'' None)) = [api, next_data]
   \<and> take 1 (attempts (outcome_diagnostics
        (resolveMakerWorldModel example_platform
           (real_stages example_platform no_heuristics instances_403)
           ''https://makerworld.com/en/models/1400-demo#profileId-77'' None))) =
       [\<lparr>att_source = api, att_ok = False, att_reasonCode = Some upstream_blocked,
         att_message = ''MakerWorld blocked the request (403).''\<rparr>]"
proof -
  have h1: "normalizeSourceUrl example_platform
             ''https://makerworld.com/en/models/1400-demo#profileId-77'' =
             NormOk ''https://makerworld.com/en/models/1400-demo'' 1400 (Some 77) \<and>
           run_api failing_stages
             \<lparr>ai_sourceUrl = ''https://makerworld.com/en/models/1400-demo'', ai_designId = 1400,
              ai_requestedVariantId = Some 77, ai_userVariantId = userVariantId_of None\<rparr> =
             Inr (PipelineFail upstream_blocked ''blocked'' [''w'', ''a'']) \<and>
           run_next_data failing_stages
             \<lparr>ni_sourceUrl = ''https://makerworld.com/en/models/1400-demo'',
              ni_requestedVariantId = Some 77, ni_userVariantId = userVariantId_of None\<rparr> =
             Inr (PipelineFail malformed_payload ''no payload'' [''w'', ''b''])"
    using example_normalize by (simp add: failing_stages_def)
  have d: "dedupe_strings ([''w'', ''a''] @ [''w'', ''b'']) = [''w'', ''a'', ''b'']"
    by code_simp
  have a: "resolveMakerWorldModel example_platform failing_stages
     ''https://makerworld.com/en/models/1400-demo#profileId-77'' None =
     Unresolvable malformed_payload ''no payload''
       \<lparr>pipeline = [api, next_data],
        warnings = [''w'', ''a'', ''b''],
        attempts = [\<lparr>att_source = api, att_ok = False, att_reasonCode = Some upstream_blocked,
                     att_message = ''blocked''\<rparr>,
                    \<lparr>att_source = next_data, att_ok = False,
                     att_reasonCode = Some malformed_payload, att_message = ''no payload''\<rparr>]\<rparr>"
    using C4_both_stages_fail [THEN conjunct1, THEN mp, OF h1, THEN conjunct1] d by simp
  have s: "show_nat 1400 = ''1400''" by code_simp
  have lt: "(1400::nat) < 2 ^ 53" by simp
  have ns: "number_string example_platform 1400 = ''1400''"
    by (simp only: number_string_def lt if_True s)
  have u: "req_url (api_request ''/design/1400/instances'' None) =
             ''https://makerworld.com/v1/design-service/design/1400/instances''"
    by code_simp
  have h2: "normalizeSourceUrl example_platform
             ''https://makerworld.com/en/models/1400-demo#profileId-77'' =
             NormOk ''https://makerworld.com/en/models/1400-demo'' 1400 (Some 77) \<and>
       instances_403 (api_request (''/design/'' @ number_string example_platform 1400 @ ''/instances'') None) 0 =
         FetchResponds \<lparr>status = 403, resp_url = [], resp_headers = [], resp_body = Inr ''{}''\<rparr> \<and>
       status \<lparr>status = 403, resp_url = [], resp_headers = [], resp_body = Inr ''{}''\<rparr> = 403"
    using example_normalize u by (simp add: instances_403_def ns)
  have b: "pipeline (outcome_diagnostics
        (resolveMakerWorldModel example_platform
           (real_stages example_platform no_heuristics instances_403)
           ''https://makerworld.com/en/models/1400-demo#profileId-77'' None)) = [api, next_data]
     \<and> take 1 (attempts (outcome_diagnostics
        (resolveMakerWorldModel example_platform
           (real_stages example_platform no_heuristics instances_403)
           ''https://makerworld.com/en/models/1400-demo#profileId-77'' None))) =
       [\<lparr>att_source = api, att_ok = False, att_reasonCode = Some upstream_blocked,
         att_message = ''MakerWorld blocked the request (403).''\<rparr>]"
    using C4_both_stages_fail
            [where p=example_platform and fetch=instances_403 and h=no_heuristics and options=None
               and url="''https://makerworld.com/en/models/1400-demo#profileId-77''"
               and n="''https://makerworld.com/en/models/1400-demo''" and did=1400
               and rid="Some 77"
               and r="\<lparr>status = 403, resp_url = [], resp_headers = [], resp_body = Inr ''{}''\<rparr>",
             THEN conjunct2] h2
    by blast
  from a b show ?thesis by simp
qed

section \<open>URL validation and normalisation\<close>

lemma endsWith_suffix: "endsWith s t \<longleftrightarrow> suffix t s"
  by (simp add: endsWith_def startsWith_prefix suffix_to_prefix)

lemma host_allowed_iff:
  "host_allowed h \<longleftrightarrow>
     toLowerCase h = ''makerworld.com'' \<or> suffix ''.makerworld.com'' (toLowerCase h)"
  by (simp add: host_allowed_def Let_def endsWith_suffix)

lemma has_model_segment_iff:
  "has_model_segment pth \<longleftrightarrow>
     sublist ''/model/'' (toLowerCase pth) \<or> sublist ''/models/'' (toLowerCase pth)"
  by (simp add: has_model_segment_def includes_sublist)

lemma toLowerChar_simps:
  "toLowerChar CHR ''#'' = CHR ''#''" "toLowerChar CHR ''p'' = CHR ''p''"
  "toLowerChar CHR ''r'' = CHR ''r''" "toLowerChar CHR ''o'' = CHR ''o''"
  "toLowerChar CHR ''f'' = CHR ''f''" "toLowerChar CHR ''i'' = CHR ''i''"
  "toLowerChar CHR ''l'' = CHR ''l''" "toLowerChar CHR ''e'' = CHR ''e''"
  "toLowerChar CHR ''I'' = CHR ''i''" "toLowerChar CHR ''d'' = CHR ''d''"
  "toLowerChar CHR ''-'' = CHR ''-''"
  by code_simp+

lemma match_profile_digits_fragment:
  assumes "ds \<noteq> []" "\<forall>c \<in> set ds. is_digit c"
  shows "match_profile_digits (''#profileId-'' @ ds) = Some ds"
proof -
  have tw: "takeWhile is_digit ds = ds" using assms(2) by (simp add: takeWhile_eq_all_conv)
  have run: "digits_run ds = Some ds"
    unfolding digits_run_def nonempty_run_def tw using assms(1) by simp
  show ?thesis
    by (simp add: match_profile_digits_def toLowerCase_def toLowerChar_simps run)
qed

lemma variant_id_of_hash_fragment:
  assumes "ds \<noteq> []" "\<forall>c \<in> set ds. is_digit c"
  shows "variant_id_of_hash (''#profileId-'' @ ds) =
           (case double_of_nat (nat_of_digits ds) of
              None \<Rightarrow> None
            | Some n \<Rightarrow> if 0 < n then Some n else None)"
  using match_profile_digits_fragment [OF assms]
  by (simp add: variant_id_of_hash_def finite_number_of_digits_def)

lemma bit_length_pos: "0 < n \<Longrightarrow> bit_length n = Suc (bit_length (n div 2))"
  by (subst bit_length.simps) simp

lemma bit_length_bounds: "0 < n \<Longrightarrow> 2 ^ (bit_length n - 1) \<le> n \<and> n < 2 ^ bit_length n"
proof (induction n rule: bit_length.induct)
  case (1 n)
  have bl: "bit_length n = Suc (bit_length (n div 2))"
    using "1.prems" by (rule bit_length_pos)
  show ?case
  proof (cases "n div 2 = 0")
    case True
    have z: "bit_length (n div 2) = 0" unfolding True by (subst bit_length.simps) simp
    from True "1.prems" have "n = 1" by (simp add: div_eq_0_iff)
    then show ?thesis using bl z by simp
  next
    case False
    then have ih: "2 ^ (bit_length (n div 2) - 1) \<le> n div 2 \<and> n div 2 < 2 ^ bit_length (n div 2)"
      using "1.IH" "1.prems" by simp
    from False have "0 < n div 2" by simp
    then have pos: "0 < bit_length (n div 2)" by (simp add: bit_length_pos)
    obtain m where m: "bit_length (n div 2) = Suc m"
      using pos by (cases "bit_length (n div 2)") simp_all
    have lo: "(2::nat) ^ m \<le> n div 2" and hi: "n div 2 < 2 * 2 ^ m"
      using ih m by simp_all
    have a: "2 * (n div 2) \<le> n" by simp
    have b: "n < 2 * (n div 2) + 2" by presburger
    have "(2::nat) ^ Suc m \<le> n" using lo a by simp
    moreover have "n < 2 ^ Suc (Suc m)" using hi b by simp
    ultimately show ?thesis using bl m by simp
  qed
qed

lemma bit_length_eq: "2 ^ k \<le> n \<Longrightarrow> n < 2 ^ Suc k \<Longrightarrow> bit_length n = Suc k"
proof -
  assume a: "2 ^ k \<le> n" "n < 2 ^ Suc k"
  then have pos: "0 < n" by (metis less_le_trans zero_less_numeral zero_less_power)
  from bit_length_bounds [OF pos] have b: "2 ^ (bit_length n - 1) \<le> n" "n < 2 ^ bit_length n" by auto
  have "(2::nat) ^ k < 2 ^ bit_length n" using a(1) b(2) by linarith
  then have 1: "k < bit_length n" by (rule power_less_imp_less_exp [rotated]) simp
  have "(2::nat) ^ (bit_length n - 1) < 2 ^ Suc k" using a(2) b(1) by linarith
  then have 2: "bit_length n - 1 < Suc k" by (rule power_less_imp_less_exp [rotated]) simp
  from 1 2 show ?thesis by linarith
qed

lemma double_of_nat_exact: "n < 2 ^ 53 \<Longrightarrow> double_of_nat n = Some n"
  by (simp add: double_of_nat_def)

lemma double_of_nat_overflow:
  assumes "2 ^ 1024 \<le> n"
  shows "double_of_nat n = None"
proof -
  have pos: "0 < n" using assms by (metis less_le_trans zero_less_numeral zero_less_power)
  from bit_length_bounds [OF pos] have b: "2 ^ (bit_length n - 1) \<le> n" "n < 2 ^ bit_length n" by auto
  have "(2::nat) ^ 1024 < 2 ^ bit_length n" using assms b(2) by linarith
  then have bl: "1024 < bit_length n" by (rule power_less_imp_less_exp [rotated]) simp
  define e where "e = bit_length n - 53"
  have split: "bit_length n - 1 = 52 + e" using bl by (simp add: e_def)
  have "(2::nat) ^ 52 * 2 ^ e \<le> n" using b(1) split by (simp add: power_add)
  then have q: "2 ^ 52 \<le> n div 2 ^ e"
    by (simp add: less_eq_div_iff_mult_less_eq)
  have e: "972 \<le> e" using bl by (simp add: e_def)
  have "(2::nat) ^ 1024 = 2 ^ 52 * 2 ^ 972" by simp
  also have "\<dots> \<le> 2 ^ 52 * 2 ^ e"
    using e by (intro mult_le_mono le_refl power_increasing) simp_all
  also have "\<dots> \<le> (n div 2 ^ e) * 2 ^ e" using q by simp
  finally have low: "2 ^ 1024 \<le> (n div 2 ^ e) * 2 ^ e" .
  then have low': "2 ^ 1024 \<le> (n div 2 ^ e + 1) * 2 ^ e"
    by (metis add_mult_distrib le_add1 le_trans)
  have "(2::nat) ^ 53 \<le> 2 ^ 1024" by simp
  then have big: "\<not> n < 2 ^ 53" using assms by linarith
  show ?thesis
    using low low' big unfolding double_of_nat_def Let_def e_def [symmetric]
    by (simp add: e_def [symmetric])
qed

lemma digit_val_simps:
  "digit_val CHR ''0'' = 0" "digit_val CHR ''1'' = 1" "digit_val CHR ''2'' = 2"
  "digit_val CHR ''3'' = 3" "digit_val CHR ''4'' = 4" "digit_val CHR ''5'' = 5"
  "digit_val CHR ''6'' = 6" "digit_val CHR ''7'' = 7" "digit_val CHR ''8'' = 8"
  "digit_val CHR ''9'' = 9"
  by code_simp+

lemma double_of_nat_tie_even: "double_of_nat 9007199254740993 = Some 9007199254740992"
proof -
  have bl: "bit_length 9007199254740993 = Suc 53"
    by (rule bit_length_eq) simp_all
  show ?thesis by (simp add: double_of_nat_def bl Let_def)
qed

lemma double_of_nat_tie_odd: "double_of_nat 9007199254740995 = Some 9007199254740996"
proof -
  have bl: "bit_length 9007199254740995 = Suc 53"
    by (rule bit_length_eq) simp_all
  show ?thesis by (simp add: double_of_nat_def bl Let_def)
qed

lemma example_rounded_variant:
  "variant_id_of_hash ''#profileId-9007199254740993'' = Some 9007199254740992"
proof -
  have dg: "\<forall>c \<in> set ''9007199254740993''. is_digit c" by code_simp
  have n: "nat_of_digits ''9007199254740993'' = 9007199254740993"
    by (simp add: nat_of_digits_def digit_val_simps)
  show ?thesis
    using variant_id_of_hash_fragment [of "''9007199254740993''"] dg
    by (simp add: n double_of_nat_tie_even)
qed

lemma example_rounded_design:
  "design_id_of_path ''/en/models/9007199254740995-demo'' = Some 9007199254740996"
proof -
  have d: "match_design_digits ''/en/models/9007199254740995-demo'' = Some ''9007199254740995''"
    by code_simp
  have n: "nat_of_digits ''9007199254740995'' = 9007199254740995"
    by (simp add: nat_of_digits_def digit_val_simps)
  show ?thesis
    by (simp add: design_id_of_path_def d finite_number_of_digits_def n double_of_nat_tie_odd)
qed

lemma url_toString_strip_hash: "url_toString (u\<lparr>hash := []\<rparr>) @ hash u = url_toString u"
  by (simp add: url_toString_def)

lemma example_design_ids:
  "design_id_of_path ''/en/models/1400-demo'' = Some 1400"
  "design_id_of_path ''/en/models/0-demo'' = None"
  "design_id_of_path ''/en/models/demo'' = None"
proof -
  have d1: "match_design_digits ''/en/models/1400-demo'' = Some ''1400''" by code_simp
  have n1: "nat_of_digits ''1400'' = 1400" by (simp add: nat_of_digits_def digit_val_simps)
  show "design_id_of_path ''/en/models/1400-demo'' = Some 1400"
    using finite_number_of_digits_small [OF n1] by (simp add: design_id_of_path_def d1)
  have d0: "match_design_digits ''/en/models/0-demo'' = Some ''0''" by code_simp
  have n0: "nat_of_digits ''0'' = 0" by (simp add: nat_of_digits_def digit_val_simps)
  show "design_id_of_path ''/en/models/0-demo'' = None"
    using finite_number_of_digits_small [OF n0] by (simp add: design_id_of_path_def d0)
  have dn: "match_design_digits ''/en/models/demo'' = None" by code_simp
  show "design_id_of_path ''/en/models/demo'' = None"
    by (simp add: design_id_of_path_def dn)
qed

text \<open>
  Claim C9.  When the input does not parse as a URL, or its scheme is not \<open>https\<close>, or
  its host is neither \<open>makerworld.com\<close> nor a subdomain of it, or its path has no
  \<open>/model/\<close> or \<open>/models/\<close> segment, or no positive design number follows that segment,
  the resolver returns a failure with reason \<open>invalid_url\<close>, records one failed attempt
  and starts no stage, so no network call is made.  For a valid input the normalised URL
  is the serialised URL with the fragment removed, the requested variant is read from the
  fragment, and every stage that is started receives the normalised URL and that variant.
  From a fragment \<open>#profileId-<digits>\<close> the variant read is \<open>Number(digits)\<close>: the double
  nearest to the number the digits denote (ties to the even significand), kept when it
  is positive and finite.  Below \<open>2^53\<close> that is the number itself; from \<open>2^1024\<close> on it is
  infinite and no variant is read; \<open>#profileId-9007199254740993\<close> reads
  \<open>9007199254740992\<close>, and the design number of a path is rounded in the same way.
\<close>

theorem C9_url_validation:
  "((new_URL p input = None \<or>
     (new_URL p input = Some u \<and>
        (protocol u \<noteq> ''https:'' \<or> \<not> host_allowed (hostname u) \<or>
         \<not> has_model_segment (pathname u) \<or> design_id_of_path (pathname u) = None))) \<longrightarrow>
      (\<exists>msg. resolveMakerWorldModel_run p st input options =
               (Unresolvable invalid_url msg
                  \<lparr>pipeline = [], warnings = [],
                   attempts = [\<lparr>att_source = api, att_ok = False,
                                att_reasonCode = Some invalid_url, att_message = msg\<rparr>]\<rparr>,
                [])))
   \<and> (new_URL p input = Some u \<and> protocol u = ''https:'' \<and> host_allowed (hostname u) \<and>
       has_model_segment (pathname u) \<and> design_id_of_path (pathname u) = Some did \<longrightarrow>
        normalizeSourceUrl p input =
          NormOk (url_toString (u\<lparr>hash := []\<rparr>)) did (variant_id_of_hash (hash u))
        \<and> url_toString (u\<lparr>hash := []\<rparr>) @ hash u = url_toString u
        \<and> snd (resolveMakerWorldModel_run p st input options) \<noteq> []
        \<and> set (snd (resolveMakerWorldModel_run p st input options)) \<subseteq>
            {CallApi \<lparr>ai_sourceUrl = url_toString (u\<lparr>hash := []\<rparr>), ai_designId = did,
                      ai_requestedVariantId = variant_id_of_hash (hash u),
                      ai_userVariantId = userVariantId_of options\<rparr>,
             CallNextData \<lparr>ni_sourceUrl = url_toString (u\<lparr>hash := []\<rparr>),
                           ni_requestedVariantId = variant_id_of_hash (hash u),
                           ni_userVariantId = userVariantId_of options\<rparr>})
   \<and> (ds \<noteq> [] \<and> (\<forall>c \<in> set ds. is_digit c) \<longrightarrow>
        variant_id_of_hash (''#profileId-'' @ ds) =
          (case double_of_nat (nat_of_digits ds) of
             None \<Rightarrow> None
           | Some n \<Rightarrow> if 0 < n then Some n else None)
        \<and> (nat_of_digits ds < 2 ^ 53 \<longrightarrow>
             variant_id_of_hash (''#profileId-'' @ ds) =
               (if 0 < nat_of_digits ds then Some (nat_of_digits ds) else None))
        \<and> (2 ^ 1024 \<le> nat_of_digits ds \<longrightarrow>
             variant_id_of_hash (''#profileId-'' @ ds) = None))
   \<and> variant_id_of_hash ''#profileId-9007199254740993'' = Some 9007199254740992
   \<and> design_id_of_path ''/en/models/9007199254740995-demo'' = Some 9007199254740996
   \<and> design_id_of_path ''/en/models/1400-demo'' = Some 1400
   \<and> design_id_of_path ''/en/models/0-demo'' = None
   \<and> design_id_of_path ''/en/models/demo'' = None"
proof -
  have c1: "(new_URL p input = None \<or>
     (new_URL p input = Some u \<and>
        (protocol u \<noteq> ''https:'' \<or> \<not> host_allowed (hostname u) \<or>
         \<not> has_model_segment (pathname u) \<or> design_id_of_path (pathname u) = None))) \<longrightarrow>
      (\<exists>msg. resolveMakerWorldModel_run p st input options =
               (Unresolvable invalid_url msg
                  \<lparr>pipeline = [], warnings = [],
                   attempts = [\<lparr>att_source = api, att_ok = False,
                                att_reasonCode = Some invalid_url, att_message = msg\<rparr>]\<rparr>,
                []))"
  proof
    assume h: "new_URL p input = None \<or>
     (new_URL p input = Some u \<and>
        (protocol u \<noteq> ''https:'' \<or> \<not> host_allowed (hostname u) \<or>
         \<not> has_model_segment (pathname u) \<or> design_id_of_path (pathname u) = None))"
    then have "\<exists>msg. normalizeSourceUrl p input = NormFail invalid_url msg"
      by (auto simp: normalizeSourceUrl_def split: option.splits)
    then obtain msg where "normalizeSourceUrl p input = NormFail invalid_url msg" by blast
    then have "resolveMakerWorldModel_run p st input options =
               (Unresolvable invalid_url msg
                  \<lparr>pipeline = [], warnings = [],
                   attempts = [\<lparr>att_source = api, att_ok = False,
                                att_reasonCode = Some invalid_url, att_message = msg\<rparr>]\<rparr>, [])"
      by (simp add: resolveMakerWorldModel_run_def resolve_try_def Let_def empty_diagnostics_def
                    toResolveFailure_def failed_attempt_def)
    then show "\<exists>msg. resolveMakerWorldModel_run p st input options =
               (Unresolvable invalid_url msg
                  \<lparr>pipeline = [], warnings = [],
                   attempts = [\<lparr>att_source = api, att_ok = False,
                                att_reasonCode = Some invalid_url, att_message = msg\<rparr>]\<rparr>, [])"
      by blast
  qed
  have c2: "new_URL p input = Some u \<and> protocol u = ''https:'' \<and> host_allowed (hostname u) \<and>
       has_model_segment (pathname u) \<and> design_id_of_path (pathname u) = Some did \<longrightarrow>
        normalizeSourceUrl p input =
          NormOk (url_toString (u\<lparr>hash := []\<rparr>)) did (variant_id_of_hash (hash u))
        \<and> url_toString (u\<lparr>hash := []\<rparr>) @ hash u = url_toString u
        \<and> snd (resolveMakerWorldModel_run p st input options) \<noteq> []
        \<and> set (snd (resolveMakerWorldModel_run p st input options)) \<subseteq>
            {CallApi \<lparr>ai_sourceUrl = url_toString (u\<lparr>hash := []\<rparr>), ai_designId = did,
                      ai_requestedVariantId = variant_id_of_hash (hash u),
                      ai_userVariantId = userVariantId_of options\<rparr>,
             CallNextData \<lparr>ni_sourceUrl = url_toString (u\<lparr>hash := []\<rparr>),
                           ni_requestedVariantId = variant_id_of_hash (hash u),
                           ni_userVariantId = userVariantId_of options\<rparr>}"
  proof (intro impI conjI)
    assume h: "new_URL p input = Some u \<and> protocol u = ''https:'' \<and> host_allowed (hostname u) \<and>
       has_model_segment (pathname u) \<and> design_id_of_path (pathname u) = Some did"
    let ?n = "url_toString (u\<lparr>hash := []\<rparr>)"
    let ?ai = "\<lparr>ai_sourceUrl = ?n, ai_designId = did,
                ai_requestedVariantId = variant_id_of_hash (hash u),
                ai_userVariantId = userVariantId_of options\<rparr>"
    let ?ni = "\<lparr>ni_sourceUrl = ?n, ni_requestedVariantId = variant_id_of_hash (hash u),
                ni_userVariantId = userVariantId_of options\<rparr>"
    from h show norm: "normalizeSourceUrl p input = NormOk ?n did (variant_id_of_hash (hash u))"
      by (simp add: normalizeSourceUrl_def)
    show "?n @ hash u = url_toString u" by (rule url_toString_strip_hash)
    have calls: "snd (resolveMakerWorldModel_run p st input options) = [CallApi ?ai] \<or>
                 snd (resolveMakerWorldModel_run p st input options) = [CallApi ?ai, CallNextData ?ni]"
      using norm
      by (simp add: resolveMakerWorldModel_run_def resolve_try_def Let_def
               split: sum.splits ResolvePipelineResult.splits prod.splits)
    then show "snd (resolveMakerWorldModel_run p st input options) \<noteq> []" by auto
    from calls show "set (snd (resolveMakerWorldModel_run p st input options)) \<subseteq>
            {CallApi ?ai, CallNextData ?ni}" by auto
  qed
  have c3: "ds \<noteq> [] \<and> (\<forall>c \<in> set ds. is_digit c) \<longrightarrow>
        variant_id_of_hash (''#profileId-'' @ ds) =
          (case double_of_nat (nat_of_digits ds) of
             None \<Rightarrow> None
           | Some n \<Rightarrow> if 0 < n then Some n else None)
        \<and> (nat_of_digits ds < 2 ^ 53 \<longrightarrow>
             variant_id_of_hash (''#profileId-'' @ ds) =
               (if 0 < nat_of_digits ds then Some (nat_of_digits ds) else None))
        \<and> (2 ^ 1024 \<le> nat_of_digits ds \<longrightarrow>
             variant_id_of_hash (''#profileId-'' @ ds) = None)"
  proof (intro impI conjI)
    assume h: "ds \<noteq> [] \<and> (\<forall>c \<in> set ds. is_digit c)"
    then show eq: "variant_id_of_hash (''#profileId-'' @ ds) =
          (case double_of_nat (nat_of_digits ds) of
             None \<Rightarrow> None
           | Some n \<Rightarrow> if 0 < n then Some n else None)"
      using variant_id_of_hash_fragment by blast
    {
      assume "nat_of_digits ds < 2 ^ 53"
      then have "double_of_nat (nat_of_digits ds) = Some (nat_of_digits ds)"
        by (rule double_of_nat_exact)
      then show "variant_id_of_hash (''#profileId-'' @ ds) =
               (if 0 < nat_of_digits ds then Some (nat_of_digits ds) else None)"
        unfolding eq by simp
    }
    {
      assume "2 ^ 1024 \<le> nat_of_digits ds"
      then have "double_of_nat (nat_of_digits ds) = None"
        by (rule double_of_nat_overflow)
      then show "variant_id_of_hash (''#profileId-'' @ ds) = None"
        unfolding eq by simp
    }
  qed
  from c1 c2 c3 example_rounded_variant example_rounded_design example_design_ids
  show ?thesis by blast
qed

theorem C9_url_validation_witness:
  "(\<exists>msg. resolveMakerWorldModel_run example_platform failing_stages
             ''http://makerworld.com/en/models/1400-demo'' None =
             (Unresolvable invalid_url msg
                \<lparr>pipeline = [], warnings = [],
                 attempts = [\<lparr>att_source = api, att_ok = False,
                              att_reasonCode = Some invalid_url, att_message = msg\<rparr>]\<rparr>, []))
   \<and> normalizeSourceUrl example_platform ''https://makerworld.com/en/models/1400-demo#profileId-77'' =
       NormOk ''https://makerworld.com/en/models/1400-demo'' 1400 (Some 77)
   \<and> variant_id_of_hash ''#profileId-77'' = Some 77"
proof -
  let ?bad = "\<lparr>protocol = ''http:'', authority = ''makerworld.com'', hostname = ''makerworld.com'',
               pathname = ''/en/models/1400-demo'', search = [], hash = []\<rparr>"
  let ?good = "\<lparr>protocol = ''https:'', authority = ''makerworld.com'', hostname = ''makerworld.com'',
                pathname = ''/en/models/1400-demo'', search = [], hash = ''#profileId-77''\<rparr>"
  have bad: "new_URL example_platform ''http://makerworld.com/en/models/1400-demo'' = Some ?bad"
    by (simp add: example_platform_def example_urls_def)
  have a: "\<exists>msg. resolveMakerWorldModel_run example_platform failing_stages
             ''http://makerworld.com/en/models/1400-demo'' None =
             (Unresolvable invalid_url msg
                \<lparr>pipeline = [], warnings = [],
                 attempts = [\<lparr>att_source = api, att_ok = False,
                              att_reasonCode = Some invalid_url, att_message = msg\<rparr>]\<rparr>, [])"
    using C9_url_validation
            [where p=example_platform and input="''http://makerworld.com/en/models/1400-demo''"
               and u="?bad" and st=failing_stages and options=None, THEN conjunct1] bad
    by simp
  have h: "host_allowed ''makerworld.com''" by code_simp
  have m: "has_model_segment ''/en/models/1400-demo''" by code_simp
  have d': "design_id_of_path ''/en/models/1400-demo'' = Some 1400"
    by (rule example_design_ids)
  have n2: "nat_of_digits ''77'' = 77" by (simp add: nat_of_digits_def digit_val_simps)
  have dg: "\<forall>c \<in> set ''77''. is_digit c" by code_simp
  have ne: "''77'' \<noteq> []" by simp
  have "nat_of_digits ''77'' < 2 ^ 53 \<longrightarrow>
          variant_id_of_hash (''#profileId-'' @ ''77'') =
            (if 0 < nat_of_digits ''77'' then Some (nat_of_digits ''77'') else None)"
    using C9_url_validation [where ds="''77''", THEN conjunct2, THEN conjunct2, THEN conjunct1]
          dg ne
    by blast
  then have c: "variant_id_of_hash ''#profileId-77'' = Some 77"
    by (simp add: n2)
  have b: "normalizeSourceUrl example_platform ''https://makerworld.com/en/models/1400-demo#profileId-77'' =
       NormOk ''https://makerworld.com/en/models/1400-demo'' 1400 (Some 77)"
    using C9_url_validation
            [where p=example_platform
               and input="''https://makerworld.com/en/models/1400-demo#profileId-77''"
               and u="?good" and did=1400, THEN conjunct2, THEN conjunct1]
          example_url_parsed h m d' c
    by (simp add: url_toString_def)
  from a b c show ?thesis by blast
qed

section \<open>Profile enrichment keeps known values\<close>

text \<open>
  Claim C10.  Enrichment of a candidate from its profile never replaces a known value: the
  identifiers and the name are kept; a printer other than \<open>unknown\<close>, a material other
  than \<open>unknown\<close>, estimated hours and grams that are present, a settings summary with at
  least one entry and a download link that is present are all unchanged.  The only other
  change is the key \<open>profile_payload\<close> of the retained raw payload.  When the candidate has
  no profile identifier, or the profile lookup fails, or it returns something that is not
  an object, the candidate is returned unchanged.
\<close>

theorem C10_enrichment_keeps_known_values:
  "variantId (maybeEnrichWithProfile p h fetch c) = variantId c
   \<and> profileId (maybeEnrichWithProfile p h fetch c) = profileId c
   \<and> name (maybeEnrichWithProfile p h fetch c) = name c
   \<and> (printer c \<noteq> ''unknown'' \<longrightarrow> printer (maybeEnrichWithProfile p h fetch c) = printer c)
   \<and> (material c \<noteq> ''unknown'' \<longrightarrow> material (maybeEnrichWithProfile p h fetch c) = material c)
   \<and> (estimatedHours c \<noteq> None \<longrightarrow>
        estimatedHours (maybeEnrichWithProfile p h fetch c) = estimatedHours c)
   \<and> (estimatedGrams c \<noteq> None \<longrightarrow>
        estimatedGrams (maybeEnrichWithProfile p h fetch c) = estimatedGrams c)
   \<and> (settings_nonempty (settingsSummary c) \<longrightarrow>
        settingsSummary (maybeEnrichWithProfile p h fetch c) = settingsSummary c)
   \<and> (downloadUrl c \<noteq> None \<longrightarrow> downloadUrl (maybeEnrichWithProfile p h fetch c) = downloadUrl c)
   \<and> (k \<noteq> ''profile_payload'' \<longrightarrow>
        map_of (payload (maybeEnrichWithProfile p h fetch c)) k = map_of (payload c) k)
   \<and> (profileId c = None \<longrightarrow> maybeEnrichWithProfile p h fetch c = c)
   \<and> (profileId c = Some pid \<and> fetchProfile p fetch pid None = ApiErr e \<longrightarrow>
        maybeEnrichWithProfile p h fetch c = c)
   \<and> (profileId c = Some pid \<and> fetchProfile p fetch pid None = ApiOk data \<and> \<not> isRecord data \<longrightarrow>
        maybeEnrichWithProfile p h fetch c = c)"
proof -
  have unchanged_or_merged:
    "maybeEnrichWithProfile p h fetch c = c \<or>
     (\<exists>d. maybeEnrichWithProfile p h fetch c = merge_profile h c d)"
    by (auto simp: maybeEnrichWithProfile_def split: option.splits MakerWorldApiResult.splits)
  have m1: "\<And>d. variantId (merge_profile h c d) = variantId c \<and>
                 profileId (merge_profile h c d) = profileId c \<and>
                 name (merge_profile h c d) = name c"
    by (simp add: merge_profile_def)
  have m2: "\<And>d. (printer c \<noteq> ''unknown'' \<longrightarrow> printer (merge_profile h c d) = printer c) \<and>
                 (material c \<noteq> ''unknown'' \<longrightarrow> material (merge_profile h c d) = material c)"
    by (simp add: merge_profile_def)
  have m3: "\<And>d. (estimatedHours c \<noteq> None \<longrightarrow> estimatedHours (merge_profile h c d) = estimatedHours c) \<and>
                 (estimatedGrams c \<noteq> None \<longrightarrow> estimatedGrams (merge_profile h c d) = estimatedGrams c)"
    by (auto simp: merge_profile_def)
  have m4: "\<And>d. (settings_nonempty (settingsSummary c) \<longrightarrow>
                    settingsSummary (merge_profile h c d) = settingsSummary c) \<and>
                 (downloadUrl c \<noteq> None \<longrightarrow> downloadUrl (merge_profile h c d) = downloadUrl c)"
    by (auto simp: merge_profile_def)
  have m5: "\<And>d. k \<noteq> ''profile_payload'' \<longrightarrow> map_of (payload (merge_profile h c d)) k = map_of (payload c) k"
    by (simp add: merge_profile_def update_conv')
  have f1: "profileId c = None \<longrightarrow> maybeEnrichWithProfile p h fetch c = c"
    by (simp add: maybeEnrichWithProfile_def)
  have f2: "profileId c = Some pid \<and> fetchProfile p fetch pid None = ApiErr e \<longrightarrow>
        maybeEnrichWithProfile p h fetch c = c"
    by (simp add: maybeEnrichWithProfile_def)
  have f3: "profileId c = Some pid \<and> fetchProfile p fetch pid None = ApiOk data \<and> \<not> isRecord data \<longrightarrow>
        maybeEnrichWithProfile p h fetch c = c"
    by (simp add: maybeEnrichWithProfile_def)
  from unchanged_or_merged show ?thesis
  proof
    assume "maybeEnrichWithProfile p h fetch c = c"
    then show ?thesis by simp
  next
    assume "\<exists>d. maybeEnrichWithProfile p h fetch c = merge_profile h c d"
    then obtain d where d: "maybeEnrichWithProfile p h fetch c = merge_profile h c d" by blast
    show ?thesis
      using m1 [of d] m2 [of d] m3 [of d] m4 [of d] m5 [of d] f1 f2 f3 unfolding d [symmetric]
      by blast
  qed
qed

lemma fetchProfile_always_403:
  "fetchProfile example_platform always_403 9010 None =
     ApiErr \<lparr>reasonCode = upstream_blocked,
             message = ''MakerWorld blocked the request (403).'',
             err_status = Some 403\<rparr>"
proof -
  have m: "mapHttpStatus 403 = (upstream_blocked, ''MakerWorld blocked the request (403).'')"
    by code_simp
  show ?thesis
    by (subst fetchProfile_def, subst fetchApiJson_def, subst fetchApiJson_run_def,
        subst fetch_loop.simps)
       (simp add: always_403_def response_ok_def m Let_def)
qed

lemma fetchProfile_serves_empty_object:
  "fetchProfile example_platform serves_empty_object 9010 None = ApiOk (JObj [])"
proof -
  have t: "trim ''{}'' \<noteq> []" by code_simp
  show ?thesis
    by (subst fetchProfile_def, subst fetchApiJson_def, subst fetchApiJson_run_def,
        subst fetch_loop.simps)
       (simp add: serves_empty_object_def response_ok_def t Let_def example_platform_def)
qed

lemma partial_variant_enriched:
  "payload (maybeEnrichWithProfile example_platform no_heuristics serves_empty_object partial_variant) =
     [(''id'', JNum 5010), (''profile_payload'', JObj [])]"
  using fetchProfile_serves_empty_object
  by (simp add: maybeEnrichWithProfile_def merge_profile_def partial_variant_def
                hasCompleteMetrics_def isRecord_def)

theorem C10_enrichment_keeps_known_values_witness:
  "maybeEnrichWithProfile example_platform no_heuristics always_403 partial_variant = partial_variant
   \<and> printer (maybeEnrichWithProfile example_platform no_heuristics serves_empty_object partial_variant) =
       ''Bambu Lab P2S''
   \<and> estimatedHours (maybeEnrichWithProfile example_platform no_heuristics serves_empty_object
                        partial_variant) = Some 3"
proof -
  have pid: "profileId partial_variant = Some 9010" by (simp add: partial_variant_def)
  have a: "maybeEnrichWithProfile example_platform no_heuristics always_403 partial_variant =
             partial_variant"
    using C10_enrichment_keeps_known_values
            [where c=partial_variant and p=example_platform and h=no_heuristics and fetch=always_403
               and pid=9010]
          pid fetchProfile_always_403
    by blast
  have pr: "printer partial_variant = ''Bambu Lab P2S''" "printer partial_variant \<noteq> ''unknown''"
    by (simp_all add: partial_variant_def)
  have hr: "estimatedHours partial_variant = Some 3" by (simp add: partial_variant_def)
  have b: "printer (maybeEnrichWithProfile example_platform no_heuristics serves_empty_object
                      partial_variant) = ''Bambu Lab P2S''"
    using C10_enrichment_keeps_known_values
            [where c=partial_variant and p=example_platform and h=no_heuristics
               and fetch=serves_empty_object]
          pr
    by simp
  have c: "estimatedHours (maybeEnrichWithProfile example_platform no_heuristics serves_empty_object
                        partial_variant) = Some 3"
    using C10_enrichment_keeps_known_values
            [where c=partial_variant and p=example_platform and h=no_heuristics
               and fetch=serves_empty_object]
          hr
    by simp
  from a b c show ?thesis by blast
qed

section \<open>Download: file name and extension\<close>
























































section \<open>Per-call options\<close>

lemma not_abort_message: "\<not> mentions_abort missing_header_message"
  by code_simp

lemma fetchApiJson_without_header:
  assumes "map_of API_HEADERS k = None"
  shows "fetchApiJson p (requires_header k v) pathname' None =
           ApiErr \<lparr>reasonCode = network_error,
                   message = ''MakerWorld API request failed: '' @ missing_header_message,
                   err_status = None\<rparr>"
proof -
  let ?req = "api_request pathname' None"
  let ?e = "JsError ''Error'' missing_header_message"
  have hs: "req_headers ?req = API_HEADERS"
    by (simp add: api_request_def effective_headers_def merge_headers_def)
  have thr: "\<And>n. requires_header k v ?req n = FetchThrows ?e"
    using assms by (simp add: requires_header_def hs)
  have nf: "\<And>n. network_failure (requires_header k v ?req n) = Some ?e"
    by (simp add: thr network_failure_def)
  have r: "effective_retries None = 1" by (simp add: effective_retries_def API_RETRY_COUNT_def)
  have "fetch_loop p (requires_header k v) ?req 1 0 = fetch_loop p (requires_header k v) ?req 1 (Suc 0)"
    using fetch_loop_retry [where fetch="requires_header k v" and req="?req" and a=0 and n=1 and p=p
                              and e="?e"] nf
    by simp
  also have "\<dots> = (ApiErr \<lparr>reasonCode = network_error,
                   message = ''MakerWorld API request failed: '' @ missing_header_message,
                   err_status = None\<rparr>, Suc (Suc 0))"
    using fetch_loop_last [where fetch="requires_header k v" and req="?req" and a="Suc 0" and n=1
                             and p=p and e="?e"] nf
    by (simp add: is_abort_def error_message_or_def)
  finally show ?thesis by (simp add: fetchApiJson_def fetchApiJson_run_def r)
qed

lemma test_header_not_default: "map_of API_HEADERS ''x-mw-test-client'' = None"
  by (simp add: API_HEADERS_def)

lemma example_normalize_1001:
  "normalizeSourceUrl example_platform ''https://makerworld.com/en/models/1001-test'' =
     NormOk ''https://makerworld.com/en/models/1001-test'' 1001 None"
proof -
  have u: "new_URL example_platform ''https://makerworld.com/en/models/1001-test'' =
             Some \<lparr>protocol = ''https:'', authority = ''makerworld.com'', hostname = ''makerworld.com'',
                   pathname = ''/en/models/1001-test'', search = [], hash = []\<rparr>"
    by (simp add: example_platform_def example_urls_def)
  have h: "host_allowed ''makerworld.com''" by code_simp
  have m: "has_model_segment ''/en/models/1001-test''" by code_simp
  have d: "match_design_digits ''/en/models/1001-test'' = Some ''1001''" by code_simp
  have n1: "nat_of_digits ''1001'' = 1001" by code_simp
  have d': "design_id_of_path ''/en/models/1001-test'' = Some 1001"
    using finite_number_of_digits_small [OF n1] by (simp add: design_id_of_path_def d)
  have f: "variant_id_of_hash [] = None" by code_simp
  show ?thesis
    by (simp add: normalizeSourceUrl_def u h m d' f url_toString_def)
qed

lemma api_stage_without_header:
  "resolveViaApi p h (requires_header ''x-mw-test-client'' ''enabled'') input =
     PipelineFail network_error (''MakerWorld API request failed: '' @ missing_header_message) []"
  using fetchApiJson_without_header [OF test_header_not_default]
  by (simp add: resolveViaApi_def fetchDesignInstances_def fetchDesign_def Let_def)

lemma fallback_stage_without_header:
  "resolveViaNextData p h (requires_header ''x-mw-test-client'' ''enabled'') input =
     PipelineFail network_error missing_header_message []"
proof -
  have "fetchTextWithLimit p (requires_header ''x-mw-test-client'' ''enabled'') (ni_sourceUrl input)
          HTML_FETCH_TIMEOUT_MS MAX_HTML_BYTES = Inl (JsError ''Error'' missing_header_message)"
    by (simp add: fetchTextWithLimit_def requires_header_def)
  then show ?thesis
    by (simp add: resolveViaNextData_def error_message_or_def not_abort_message)
qed

lemma fetchApiJson_with_test_options:
  "fetchApiJson example_platform (requires_header ''x-mw-test-client'' ''enabled'') pathname'
     (Some test_request_options) = ApiOk (JObj [])"
proof -
  let ?req = "api_request pathname' (Some test_request_options)"
  have hs: "map_of (req_headers ?req) ''x-mw-test-client'' = Some ''enabled''"
    by (simp add: api_request_def effective_headers_def merge_headers_def test_request_options_def
                  API_HEADERS_def)
  have t: "trim ''{}'' \<noteq> []" by code_simp
  have "fetch_loop example_platform (requires_header ''x-mw-test-client'' ''enabled'') ?req
          (effective_retries (Some test_request_options)) 0 = (ApiOk (JObj []), Suc 0)"
    by (subst fetch_loop.simps)
       (simp add: requires_header_def hs response_ok_def t Let_def example_platform_def)
  then show ?thesis
    by (simp add: fetchApiJson_def fetchApiJson_run_def)
qed

lemma api_client_applies_options:
  "fetchDesignInstances example_platform (requires_header ''x-mw-test-client'' ''enabled'') 1001
     (Some test_request_options) = ApiOk (JObj [])"
  unfolding fetchDesignInstances_def by (rule fetchApiJson_with_test_options)

lemma download_without_header:
  "downloadMakerWorldModelFile p (requires_header ''x-mw-download-test'' ''ok'') url =
     Unavailable download_unavailable missing_header_message"
  by (simp add: downloadMakerWorldModelFile_def fetchModelFileWithLimit_def requires_header_def
                error_message_or_def not_abort_message Let_def)

text \<open>
  Claim C2 (violated by the code).  The test suite calls the resolver with request options
  carrying the header \<open>x-mw-test-client\<close> and expects every API request to carry it, and
  calls the downloader with options carrying the header \<open>x-mw-download-test\<close>.  The
  resolver never reads \<open>options.request\<close> and calls each fetcher without options, and the
  downloader has no options parameter: against a server that only answers requests
  carrying the header, resolution and download both fail, although the API client itself
  applies the options when it is given them.
\<close>

theorem C2_options_never_reach_the_requests:
  "resolveMakerWorldModel example_platform
     (real_stages example_platform no_heuristics (requires_header ''x-mw-test-client'' ''enabled''))
     ''https://makerworld.com/en/models/1001-test''
     (Some \<lparr>opt_variantId = None, opt_request = Some test_request_options\<rparr>) =
     Unresolvable network_error missing_header_message
       \<lparr>pipeline = [api, next_data], warnings = [],
        attempts = [failed_attempt api network_error
                      (''MakerWorld API request failed: '' @ missing_header_message),
                    failed_attempt next_data network_error missing_header_message]\<rparr>
   \<and> fetchDesignInstances example_platform (requires_header ''x-mw-test-client'' ''enabled'') 1001
       (Some test_request_options) = ApiOk (JObj [])
   \<and> downloadMakerWorldModelFile example_platform (requires_header ''x-mw-download-test'' ''ok'')
       ''https://makerworld.com/files/part'' =
       Unavailable download_unavailable missing_header_message"
proof -
  have d: "dedupe_strings [] = []" by (simp add: dedupe_strings_def)
  have a: "resolveMakerWorldModel example_platform
     (real_stages example_platform no_heuristics (requires_header ''x-mw-test-client'' ''enabled''))
     ''https://makerworld.com/en/models/1001-test''
     (Some \<lparr>opt_variantId = None, opt_request = Some test_request_options\<rparr>) =
     Unresolvable network_error missing_header_message
       \<lparr>pipeline = [api, next_data], warnings = [],
        attempts = [failed_attempt api network_error
                      (''MakerWorld API request failed: '' @ missing_header_message),
                    failed_attempt next_data network_error missing_header_message]\<rparr>"
    by (simp add: resolveMakerWorldModel_def resolveMakerWorldModel_run_def resolve_try_def
                  example_normalize_1001 real_stages_def api_stage_without_header
                  fallback_stage_without_header Let_def empty_diagnostics_def toResolveFailure_def d)
  show ?thesis
    using a api_client_applies_options download_without_header by blast
qed

end
